theory Spec2Isabelle
  imports Complex_Main "HOL-Library.Sublist"
begin

section \<open>JavaScript values used by the plugin\<close>

text \<open>
  The plugin \<^verbatim>\<open>.opencode/plugins/ralph-rlm.ts\<close> is TypeScript. Its numbers are
  IEEE doubles: a raw configuration value is either absent (\<^verbatim>\<open>undefined\<close>, modelled
  by \<open>None\<close>), one of the three non-finite doubles, or a finite double. Every finite
  double is a rational number, so \<open>Finite\<close> carries a \<open>rat\<close>; the model therefore
  covers every finite double (and more). Strings are \<open>string\<close>; text outside ASCII that
  the source writes in a literal is given by its UTF-8 bytes.
\<close>

datatype js_number = Finite rat | NaN | PosInfinity | NegInfinity

text \<open>\<^verbatim>\<open>Math.trunc\<close> on a finite number: rounding towards zero.\<close>

definition js_trunc :: "rat \<Rightarrow> int" where
  "js_trunc r = (if 0 \<le> r then \<lfloor>r\<rfloor> else \<lceil>r\<rceil>)"

text \<open>
  \<^verbatim>\<open>String.prototype.trim\<close>: the white space and line terminators that fit a
  \<open>char\<close> (tab, line feed, vertical tab, form feed, carriage return, space, no-break
  space).
\<close>

definition js_space :: "char \<Rightarrow> bool" where
  "js_space c = (c \<in> set [CHR 0x09, CHR 0x0A, CHR 0x0B, CHR 0x0C, CHR 0x0D, CHR 0x20, CHR 0xA0])"

definition js_trim :: "string \<Rightarrow> string" where
  "js_trim s = rev (dropWhile js_space (rev (dropWhile js_space s)))"

section \<open>Configuration (\<^verbatim>\<open>RalphConfig\<close>, \<^verbatim>\<open>ResolvedConfig\<close>, \<^verbatim>\<open>resolveConfig\<close>)\<close>

datatype verbosity = Minimal | Normal | Verbose

record verify_config =
  command :: "string list"
  cwd :: "string option"

text \<open>The decoded \<^verbatim>\<open>ralph.json\<close>: every field is optional.\<close>

record ralph_config =
  raw_enabled :: "bool option"
  raw_autoStartOnMainIdle :: "bool option"
  raw_statusVerbosity :: "verbosity option"
  raw_maxAttempts :: "js_number option"
  raw_heartbeatMinutes :: "js_number option"
  raw_verifyTimeoutMinutes :: "js_number option"
  raw_verify :: "verify_config option"
  raw_gateDestructiveToolsUntilContextLoaded :: "bool option"
  raw_maxRlmSliceLines :: "js_number option"
  raw_requireGrepBeforeLargeSlice :: "bool option"
  raw_grepRequiredThresholdLines :: "js_number option"
  raw_subAgentEnabled :: "bool option"
  raw_maxSubAgents :: "js_number option"
  raw_maxConversationLines :: "js_number option"
  raw_conversationArchiveCount :: "js_number option"
  raw_reviewerEnabled :: "bool option"
  raw_reviewerRequireExplicitReady :: "bool option"
  raw_reviewerMaxRunsPerAttempt :: "js_number option"
  raw_reviewerOutputDir :: "string option"
  raw_reviewerPostToConversation :: "bool option"
  raw_agentMdPath :: "string option"

record resolved_config =
  enabled :: bool
  autoStartOnMainIdle :: bool
  statusVerbosity :: verbosity
  maxAttempts :: int
  heartbeatMinutes :: int
  verifyTimeoutMinutes :: int
  verify :: "verify_config option"
  gateDestructiveToolsUntilContextLoaded :: bool
  maxRlmSliceLines :: int
  requireGrepBeforeLargeSlice :: bool
  grepRequiredThresholdLines :: int
  subAgentEnabled :: bool
  maxSubAgents :: int
  maxConversationLines :: int
  conversationArchiveCount :: int
  reviewerEnabled :: bool
  reviewerRequireExplicitReady :: bool
  reviewerMaxRunsPerAttempt :: int
  reviewerOutputDir :: string
  reviewerPostToConversation :: bool
  agentMdPath :: string

text \<open>
  \<^verbatim>\<open>toBoundedInt(value, fallback, min, max)\<close>. The candidate is the value when it is
  a finite number and the fallback otherwise; all callers pass integer literals (or an
  already resolved integer) for \<open>fallback\<close>, \<open>min\<close> and \<open>max\<close>, so the truncated
  candidate is always finite and the source's \<^verbatim>\<open>if (!Number.isFinite(n)) return fallback\<close>
  never fires. The result is \<^verbatim>\<open>Math.min(max, Math.max(min, n))\<close>.
\<close>

definition toBoundedInt :: "js_number option \<Rightarrow> int \<Rightarrow> int \<Rightarrow> int \<Rightarrow> int" where
  "toBoundedInt v fallback mn mx =
     (let candidate = (case v of Some (Finite r) \<Rightarrow> r | _ \<Rightarrow> of_int fallback);
          n = js_trunc candidate
      in min mx (max mn n))"

definition sanitizeVerify :: "verify_config option \<Rightarrow> verify_config option" where
  "sanitizeVerify v =
     (case v of
        None \<Rightarrow> None
      | Some vc \<Rightarrow>
          (let cmd = filter (\<lambda>part. length part > 0) (map js_trim (command vc)) in
           if length cmd = 0 then None
           else (case map_option js_trim (cwd vc) of
                   None \<Rightarrow> Some \<lparr>command = cmd, cwd = None\<rparr>
                 | Some d \<Rightarrow> if d = [] then Some \<lparr>command = cmd, cwd = None\<rparr>
                             else Some \<lparr>command = cmd, cwd = Some d\<rparr>)))"

definition CONFIG_DEFAULTS :: resolved_config where
  "CONFIG_DEFAULTS =
     \<lparr>enabled = True,
      autoStartOnMainIdle = False,
      statusVerbosity = Normal,
      maxAttempts = 20,
      heartbeatMinutes = 15,
      verifyTimeoutMinutes = 0,
      verify = None,
      gateDestructiveToolsUntilContextLoaded = True,
      maxRlmSliceLines = 200,
      requireGrepBeforeLargeSlice = True,
      grepRequiredThresholdLines = 120,
      subAgentEnabled = True,
      maxSubAgents = 5,
      maxConversationLines = 1200,
      conversationArchiveCount = 3,
      reviewerEnabled = False,
      reviewerRequireExplicitReady = True,
      reviewerMaxRunsPerAttempt = 1,
      reviewerOutputDir = ''.opencode/reviews'',
      reviewerPostToConversation = True,
      agentMdPath = ''AGENT.md''\<rparr>"

text \<open>\<^verbatim>\<open>a ?? b\<close> on an optional value.\<close>

definition nullish :: "'a option \<Rightarrow> 'a \<Rightarrow> 'a" where
  "nullish v d = (case v of None \<Rightarrow> d | Some x \<Rightarrow> x)"

definition resolveConfig :: "ralph_config \<Rightarrow> resolved_config" where
  "resolveConfig raw =
     (let vfy = sanitizeVerify (raw_verify raw);
          maxSlice = toBoundedInt (raw_maxRlmSliceLines raw) (maxRlmSliceLines CONFIG_DEFAULTS) 10 2000;
          grepThreshold = toBoundedInt (raw_grepRequiredThresholdLines raw)
                            (grepRequiredThresholdLines CONFIG_DEFAULTS) 1 maxSlice
      in \<lparr>enabled = nullish (raw_enabled raw) (enabled CONFIG_DEFAULTS),
          autoStartOnMainIdle = nullish (raw_autoStartOnMainIdle raw) (autoStartOnMainIdle CONFIG_DEFAULTS),
          statusVerbosity = nullish (raw_statusVerbosity raw) (statusVerbosity CONFIG_DEFAULTS),
          maxAttempts = toBoundedInt (raw_maxAttempts raw) (maxAttempts CONFIG_DEFAULTS) 1 500,
          heartbeatMinutes = toBoundedInt (raw_heartbeatMinutes raw) (heartbeatMinutes CONFIG_DEFAULTS) 1 240,
          verifyTimeoutMinutes =
            toBoundedInt (raw_verifyTimeoutMinutes raw) (verifyTimeoutMinutes CONFIG_DEFAULTS) 0 240,
          verify = vfy,
          gateDestructiveToolsUntilContextLoaded =
            nullish (raw_gateDestructiveToolsUntilContextLoaded raw)
              (gateDestructiveToolsUntilContextLoaded CONFIG_DEFAULTS),
          maxRlmSliceLines = maxSlice,
          requireGrepBeforeLargeSlice =
            nullish (raw_requireGrepBeforeLargeSlice raw) (requireGrepBeforeLargeSlice CONFIG_DEFAULTS),
          grepRequiredThresholdLines = grepThreshold,
          subAgentEnabled = nullish (raw_subAgentEnabled raw) (subAgentEnabled CONFIG_DEFAULTS),
          maxSubAgents = toBoundedInt (raw_maxSubAgents raw) (maxSubAgents CONFIG_DEFAULTS) 1 50,
          maxConversationLines =
            toBoundedInt (raw_maxConversationLines raw) (maxConversationLines CONFIG_DEFAULTS) 200 20000,
          conversationArchiveCount =
            toBoundedInt (raw_conversationArchiveCount raw) (conversationArchiveCount CONFIG_DEFAULTS) 1 20,
          reviewerEnabled = nullish (raw_reviewerEnabled raw) (reviewerEnabled CONFIG_DEFAULTS),
          reviewerRequireExplicitReady =
            nullish (raw_reviewerRequireExplicitReady raw) (reviewerRequireExplicitReady CONFIG_DEFAULTS),
          reviewerMaxRunsPerAttempt =
            toBoundedInt (raw_reviewerMaxRunsPerAttempt raw) (reviewerMaxRunsPerAttempt CONFIG_DEFAULTS) 1 20,
          reviewerOutputDir =
            (case map_option js_trim (raw_reviewerOutputDir raw) of
               None \<Rightarrow> reviewerOutputDir CONFIG_DEFAULTS
             | Some d \<Rightarrow> if d = [] then reviewerOutputDir CONFIG_DEFAULTS else d),
          reviewerPostToConversation =
            nullish (raw_reviewerPostToConversation raw) (reviewerPostToConversation CONFIG_DEFAULTS),
          agentMdPath = nullish (raw_agentMdPath raw) (agentMdPath CONFIG_DEFAULTS)\<rparr>)"

section \<open>Text helpers\<close>

definition nl :: string where
  "nl = [CHR 0x0A]"

text \<open>\<^verbatim>\<open>String(n)\<close> for a non-negative integer: its decimal digits.\<close>

function show_nat :: "nat \<Rightarrow> string" where
  "show_nat n = (if n < 10 then [char_of (48 + n)] else show_nat (n div 10) @ [char_of (48 + n mod 10)])"
  by pat_completeness auto
termination
  by (relation "measure id") auto

declare show_nat.simps [simp del]

definition show_int :: "int \<Rightarrow> string" where
  "show_int i = (if i < 0 then ''-'' @ show_nat (nat (- i)) else show_nat (nat i))"

text \<open>\<^verbatim>\<open>xs.join(sep)\<close>.\<close>

fun join :: "string \<Rightarrow> string list \<Rightarrow> string" where
  "join sep [] = []"
| "join sep [x] = x"
| "join sep (x # y # ys) = x @ sep @ join sep (y # ys)"

text \<open>
  \<^verbatim>\<open>text.split(/\r?\n/)\<close>: a line ends at a line feed, and a carriage return right
  before that line feed belongs to the separator. The accumulator holds the current
  line reversed. The result is never empty: the empty text has one line, the empty one.
\<close>

fun split_acc :: "string \<Rightarrow> string \<Rightarrow> string list" where
  "split_acc acc [] = [rev acc]"
| "split_acc acc [c] = (if c = CHR 0x0A then [rev acc, []] else [rev (c # acc)])"
| "split_acc acc (c # d # cs) =
     (if c = CHR 0x0A then rev acc # split_acc [] (d # cs)
      else if c = CHR 0x0D \<and> d = CHR 0x0A then rev acc # split_acc [] cs
      else split_acc (c # acc) (d # cs))"

definition split_lines :: "string \<Rightarrow> string list" where
  "split_lines s = split_acc [] s"

text \<open>
  \<^verbatim>\<open>clampLines(text, maxLines)\<close>. The marker's ellipsis (U+2026) is written as its
  UTF-8 bytes.
\<close>

definition ellipsis :: string where
  "ellipsis = [CHR 0xE2, CHR 0x80, CHR 0xA6]"

definition clampLines :: "string \<Rightarrow> nat \<Rightarrow> string" where
  "clampLines txt maxLines =
     (let lines = split_lines txt in
      if length lines \<le> maxLines then txt
      else join nl (take maxLines lines) @ nl @ nl @ ellipsis @ ''(truncated to '' @ show_nat maxLines
             @ '' lines)'' @ ellipsis @ nl)"

text \<open>
  \<^verbatim>\<open>interpolate(template, vars)\<close> replaces every \<^verbatim>\<open>{{key}}\<close> (key a non-empty run
  of word characters) by \<^verbatim>\<open>vars[key]\<close>, and leaves the token as it is when the key
  is not among \<open>vars\<close>. \<open>match_token\<close> recognises one token at the head of the text;
  since a closing brace is no word character, only the maximal run of word characters
  can be followed by the closing braces.
\<close>

definition word_char :: "char \<Rightarrow> bool" where
  "word_char c =
     (let k = of_char c :: nat in
      (48 \<le> k \<and> k \<le> 57) \<or> (65 \<le> k \<and> k \<le> 90) \<or> (97 \<le> k \<and> k \<le> 122) \<or> k = 95)"

definition match_token :: "string \<Rightarrow> (string \<times> string) option" where
  "match_token s =
     (if take 2 s = ''{{''
      then (let key = takeWhile word_char (drop 2 s); r = dropWhile word_char (drop 2 s) in
            if key \<noteq> [] \<and> take 2 r = ''}}'' then Some (key, drop 2 r) else None)
      else None)"

lemma match_token_shorter: "match_token s = Some (key, r) \<Longrightarrow> length r < length s"
proof -
  assume a: "match_token s = Some (key, r)"
  have le: "length (dropWhile word_char (drop 2 s)) \<le> length (drop 2 s)"
    by (rule length_dropWhile_le)
  from a have two: "take 2 s = ''{{''"
    by (simp add: match_token_def split: if_splits)
  then have "length (take 2 s) = 2" by simp
  then have len: "2 \<le> length s" by simp
  from a have "r = drop 2 (dropWhile word_char (drop 2 s))"
    by (simp add: match_token_def Let_def split: if_splits)
  then have "length r \<le> length (dropWhile word_char (drop 2 s))" by simp
  with le have "length r \<le> length s - 2" by simp
  with len show ?thesis by simp
qed

function interpolate :: "string \<Rightarrow> (string \<times> string) list \<Rightarrow> string" where
  "interpolate [] vars = []"
| "interpolate (c # cs) vars =
     (case match_token (c # cs) of
        Some (key, r) \<Rightarrow>
          (case map_of vars key of Some v \<Rightarrow> v | None \<Rightarrow> ''{{'' @ key @ ''}}'') @ interpolate r vars
      | None \<Rightarrow> c # interpolate cs vars)"
  by pat_completeness auto
termination
  by (relation "measure (\<lambda>(s, vars). length s)") (auto dest: match_token_shorter)

section \<open>Protocol files and prompt templates\<close>

definition FILE_PLAN :: string where
  "FILE_PLAN = ''PLAN.md''"

definition FILE_NEXT_RALPH :: string where
  "FILE_NEXT_RALPH = ''AGENT_CONTEXT_FOR_NEXT_RALPH.md''"

definition FILE_RLM_CTX :: string where
  "FILE_RLM_CTX = ''CONTEXT_FOR_RLM.md''"

definition FILE_PREV :: string where
  "FILE_PREV = ''PREVIOUS_STATE.md''"

definition FILE_CURR :: string where
  "FILE_CURR = ''CURRENT_STATE.md''"

definition FILE_NOTES :: string where
  "FILE_NOTES = ''NOTES_AND_LEARNINGS.md''"

text \<open>
  The templates are read once at start-up (built-in defaults or environment overrides),
  so they are a parameter of the model.
\<close>

record prompt_templates =
  continuePrompt :: string
  doneFileContent :: string
  subagentPrompt :: string
  subagentDoneSentinel :: string
  subagentDoneHeading :: string
  bootstrapCurrentState :: string
  contextGateError :: string
  workerPrompt :: string
  ralphSessionPrompt :: string

section \<open>Session and supervisor state\<close>

datatype session_role = Main | Ralph | Worker | Subagent

datatype reported_status = StatusRunning | StatusBlocked | StatusDone | StatusError

datatype sub_agent_status = Running | Done | Failed

record sub_agent_record =
  sa_sessionId :: string
  sa_name :: string
  sa_goal :: string
  sa_spawnedAt :: nat
  sa_status :: sub_agent_status
  sa_result :: "string option"

record session_state =
  role :: session_role
  attempt :: nat
  loadedContext :: bool
  workerSpawned :: bool
  lastGrepAt :: "nat option"
  lastGrepQuery :: "string option"
  reportedStatus :: "reported_status option"
  reportedStatusNote :: "string option"
  lastProgressAt :: "nat option"
  subAgents :: "sub_agent_record list"

record supervisor_state =
  sup_sessionId :: "string option"
  sup_attempt :: nat
  currentRalphSessionId :: "string option"
  currentWorkerSessionId :: "string option"
  sup_done :: bool
  sup_paused :: bool
  lastMainIdleAt :: "nat option"
  reviewRequested :: "nat \<rightharpoonup> string"
  reviewerRuns :: "nat \<rightharpoonup> nat"
  activeReviewerName :: "string option"
  activeReviewerAttempt :: "nat option"
  activeReviewerSessionId :: "string option"
  activeReviewerOutputPath :: "string option"

datatype level = Info | Warning | Error

text \<open>
  The state of the plugin and of the collaborators it drives. Documents are a partial
  map from worktree-relative paths to their text: reading an absent document fails,
  writing always succeeds. \<open>host_created\<close> lists the child sessions the plugin asked the
  session host to create (id, title) and \<open>host_prompts\<close> the prompts it sent (id, text),
  both in order. \<open>commands_run\<close> lists the external commands started (argument vector,
  working directory). \<open>notices\<close> lists the calls of \<^verbatim>\<open>notifySupervisor\<close> (source,
  level, message); handing a notice on (de-duplication, verbosity filter, the two log
  documents, the toast, the prompt to the bound session) touches none of the other
  components. Each handler and tool call is one atomic step of the single logical
  orchestrator.
\<close>

record plugin_state =
  supervisor :: supervisor_state
  sessionMap :: "string \<rightharpoonup> session_state"
  files :: "string \<rightharpoonup> string"
  host_created :: "(string \<times> string) list"
  host_prompts :: "(string \<times> string) list"
  commands_run :: "(string list \<times> string) list"
  notices :: "(string \<times> level \<times> string) list"

definition freshSession :: "session_role \<Rightarrow> nat \<Rightarrow> session_state" where
  "freshSession r a =
     \<lparr>role = r, attempt = a, loadedContext = False, workerSpawned = False,
      lastGrepAt = None, lastGrepQuery = None, reportedStatus = None,
      reportedStatusNote = None, lastProgressAt = None, subAgents = []\<rparr>"

text \<open>The state right after the plugin has started (no reviewer state on disk).\<close>

definition initial_state :: "(string \<rightharpoonup> string) \<Rightarrow> plugin_state" where
  "initial_state docs =
     \<lparr>supervisor =
        \<lparr>sup_sessionId = None, sup_attempt = 0, currentRalphSessionId = None,
         currentWorkerSessionId = None, sup_done = False, sup_paused = False,
         lastMainIdleAt = None, reviewRequested = Map.empty, reviewerRuns = Map.empty,
         activeReviewerName = None, activeReviewerAttempt = None,
         activeReviewerSessionId = None, activeReviewerOutputPath = None\<rparr>,
      sessionMap = Map.empty, files = docs, host_created = [], host_prompts = [],
      commands_run = [], notices = []\<rparr>"

text \<open>
  \<^verbatim>\<open>getSession(id)\<close> creates a fresh record (role main, attempt 0) for an unknown id and
  returns the record: \<open>ensureSession\<close> is its effect on the registry and \<open>getSession\<close>
  the record it returns. \<^verbatim>\<open>mutateSession(id, f)\<close> applies \<open>f\<close> to that record.
\<close>

definition ensureSession :: "string \<Rightarrow> plugin_state \<Rightarrow> plugin_state" where
  "ensureSession sid s =
     (case sessionMap s sid of
        None \<Rightarrow> s\<lparr>sessionMap := (sessionMap s)(sid \<mapsto> freshSession Main 0)\<rparr>
      | Some _ \<Rightarrow> s)"

definition getSession :: "string \<Rightarrow> plugin_state \<Rightarrow> session_state" where
  "getSession sid s = (case sessionMap s sid of None \<Rightarrow> freshSession Main 0 | Some st \<Rightarrow> st)"

definition mutateSession :: "string \<Rightarrow> (session_state \<Rightarrow> session_state) \<Rightarrow> plugin_state \<Rightarrow> plugin_state" where
  "mutateSession sid f s = s\<lparr>sessionMap := (sessionMap s)(sid \<mapsto> f (getSession sid s))\<rparr>"

definition notifySupervisor :: "string \<Rightarrow> string \<Rightarrow> level \<Rightarrow> plugin_state \<Rightarrow> plugin_state" where
  "notifySupervisor source msg lvl s = s\<lparr>notices := notices s @ [(source, lvl, msg)]\<rparr>"

text \<open>Truthiness of an optional string (\<^verbatim>\<open>undefined\<close> and the empty string are falsy) and number.\<close>

definition truthy_str :: "string option \<Rightarrow> bool" where
  "truthy_str v = (case v of None \<Rightarrow> False | Some x \<Rightarrow> x \<noteq> [])"

definition truthy_num :: "nat option \<Rightarrow> bool" where
  "truthy_num v = (case v of None \<Rightarrow> False | Some x \<Rightarrow> x \<noteq> 0)"

text \<open>\<^verbatim>\<open>readFile(p)\<close>: the text of the document, or a \<^verbatim>\<open>FileError\<close> naming the path.\<close>

datatype plugin_error =
    FileError string
  | ContextGateError string
  | SliceEndBeforeStart
  | SliceTooLarge nat int
  | SliceNeedsRecentGrep int
  | SubAgentsDisabled
  | SubAgentNameInvalid string
  | SubAgentAlreadyRunning string
  | MaxSubAgentsReached int
  | SpawnWorkerNotStrategist
  | SpawnWorkerAlreadyCalled
  | QuestionNotFound string string

definition readFile :: "plugin_state \<Rightarrow> string \<Rightarrow> plugin_error + string" where
  "readFile s p = (case files s p of None \<Rightarrow> Inl (FileError p) | Some txt \<Rightarrow> Inr txt)"

definition writeFile :: "string \<Rightarrow> string \<Rightarrow> plugin_state \<Rightarrow> plugin_state" where
  "writeFile p txt s = s\<lparr>files := (files s)(p \<mapsto> txt)\<rparr>"

definition ensureFile :: "string \<Rightarrow> string \<Rightarrow> plugin_state \<Rightarrow> plugin_state" where
  "ensureFile p txt s = (case files s p of None \<Rightarrow> writeFile p txt s | Some _ \<Rightarrow> s)"

section \<open>The protocol gate (\<^verbatim>\<open>tool.execute.before\<close>)\<close>

definition DESTRUCTIVE_TOOLS :: "string list" where
  "DESTRUCTIVE_TOOLS = [''write'', ''edit'', ''bash'', ''delete'', ''move'', ''rename'']"

definition SAFE_TOOLS :: "string list" where
  "SAFE_TOOLS = [''ralph_load_context'', ''rlm_grep'', ''rlm_slice'', ''subagent_peek'',
                 ''ralph_verify'', ''ralph_report'', ''ralph_ask'', ''ralph_respond'']"

text \<open>
  The hook's input as the source reads it: the session id is
  \<^verbatim>\<open>input.sessionID ?? input.session_id ?? input.session?.id\<close> and the tool name is
  \<^verbatim>\<open>input.tool ?? input.call?.name ?? ""\<close>.
\<close>

record tool_input =
  in_sessionID :: "string option"
  in_session_id :: "string option"
  in_session_dot_id :: "string option"
  in_tool :: "string option"
  in_call_name :: "string option"

definition coalesce :: "'a option \<Rightarrow> 'a option \<Rightarrow> 'a option" where
  "coalesce a b = (case a of None \<Rightarrow> b | Some x \<Rightarrow> Some x)"

definition input_session :: "tool_input \<Rightarrow> string option" where
  "input_session inp = coalesce (in_sessionID inp) (coalesce (in_session_id inp) (in_session_dot_id inp))"

definition input_tool :: "tool_input \<Rightarrow> string" where
  "input_tool inp = nullish (coalesce (in_tool inp) (in_call_name inp)) []"

text \<open>The hook returns normally (\<open>Inr ()\<close>) or throws the configured gate error.\<close>

definition tool_execute_before ::
  "resolved_config \<Rightarrow> prompt_templates \<Rightarrow> plugin_state \<Rightarrow> tool_input \<Rightarrow> plugin_error + unit" where
  "tool_execute_before cfg tpl s inp =
     (if \<not> gateDestructiveToolsUntilContextLoaded cfg then Inr ()
      else if \<not> truthy_str (input_session inp) then Inr ()
      else (case sessionMap s (nullish (input_session inp) []) of
              None \<Rightarrow> Inr ()
            | Some st \<Rightarrow>
                if role st \<noteq> Worker \<and> role st \<noteq> Subagent then Inr ()
                else if input_tool inp = [] then Inr ()
                else if input_tool inp \<in> set SAFE_TOOLS then Inr ()
                else if input_tool inp \<notin> set DESTRUCTIVE_TOOLS then Inr ()
                else if \<not> loadedContext st then Inl (ContextGateError (contextGateError tpl))
                else Inr ()))"

text \<open>
  \<^verbatim>\<open>ralph_load_context\<close>: its effect on the registry. The session is
  \<^verbatim>\<open>ctx.sessionID ?? "default"\<close>; the call marks the context as loaded before it
  reads anything, and every read it makes has a fallback, so it cannot fail. The payload
  it returns is not modelled.
\<close>

definition ralph_load_context_effect :: "string option \<Rightarrow> plugin_state \<Rightarrow> plugin_state" where
  "ralph_load_context_effect ctx_sid s =
     mutateSession (nullish ctx_sid ''default'') (\<lambda>st. st\<lparr>loadedContext := True\<rparr>) s"

section \<open>\<^verbatim>\<open>rlm_slice\<close>\<close>

text \<open>
  The argument schema (\<^verbatim>\<open>number().int().min(1)\<close> for both lines) is part of the tool:
  a call that violates it never reaches \<^verbatim>\<open>execute\<close>. Line numbers are therefore
  natural numbers, and \<open>ArgsInvalid\<close> stands for the schema's rejection of 0.
\<close>

record slice_args =
  sl_file :: "string option"
  startLine :: nat
  endLine :: nat

record slice_result =
  res_file :: string
  res_startLine :: nat
  res_endLine :: nat
  totalFileLines :: nat
  res_text :: string

datatype 'a outcome = Threw plugin_error | ArgsInvalid | Returned 'a

text \<open>
  \<^verbatim>\<open>st.lastGrepAt && Date.now() - st.lastGrepAt < 5 * 60 * 1000\<close>; \<^verbatim>\<open>rlm_grep\<close> stores
  the time of its last successful run for the session in \<^verbatim>\<open>lastGrepAt\<close>.
\<close>

definition recentGrep :: "session_state \<Rightarrow> nat \<Rightarrow> bool" where
  "recentGrep st now =
     (case lastGrepAt st of None \<Rightarrow> False | Some t \<Rightarrow> t \<noteq> 0 \<and> int now - int t < 5 * 60 * 1000)"

text \<open>\<^verbatim>\<open>lines.slice(a, b)\<close> for \<open>0 \<le> a\<close> and \<open>0 \<le> b\<close>.\<close>

definition js_slice :: "'a list \<Rightarrow> nat \<Rightarrow> nat \<Rightarrow> 'a list" where
  "js_slice xs a b = take (b - a) (drop a xs)"

text \<open>
  The tool: \<open>now\<close> is \<^verbatim>\<open>Date.now()\<close>, \<open>ctx_sid\<close> is \<^verbatim>\<open>ctx.sessionID\<close>. \<^verbatim>\<open>getSession\<close>
  registers the caller before any check, so the registry may change on a rejected call
  too; documents never change.
\<close>

definition tool_rlm_slice ::
  "resolved_config \<Rightarrow> nat \<Rightarrow> string option \<Rightarrow> slice_args \<Rightarrow> plugin_state
     \<Rightarrow> slice_result outcome \<times> plugin_state" where
  "tool_rlm_slice cfg now ctx_sid args s =
     (if startLine args < 1 \<or> endLine args < 1 then (ArgsInvalid, s)
      else
        (let sessionID = nullish ctx_sid ''default'';
             s1 = ensureSession sessionID s;
             st = getSession sessionID s;
             fileRel = nullish (sl_file args) FILE_RLM_CTX;
             span = endLine args - startLine args + 1
         in if endLine args < startLine args then (Threw SliceEndBeforeStart, s1)
            else if int span > maxRlmSliceLines cfg
              then (Threw (SliceTooLarge span (maxRlmSliceLines cfg)), s1)
            else if requireGrepBeforeLargeSlice cfg \<and> int span \<ge> grepRequiredThresholdLines cfg
                    \<and> \<not> recentGrep st now
              then (Threw (SliceNeedsRecentGrep (grepRequiredThresholdLines cfg)), s1)
            else (case readFile s1 fileRel of
                    Inl e \<Rightarrow> (Threw e, s1)
                  | Inr raw \<Rightarrow>
                      (let lines = split_lines raw in
                       (Returned \<lparr>res_file = fileRel, res_startLine = startLine args,
                                  res_endLine = endLine args, totalFileLines = length lines,
                                  res_text = join nl (js_slice lines (startLine args - 1) (endLine args))\<rparr>,
                        s1)))))"

section \<open>The question and answer channel (\<^verbatim>\<open>ralph_respond\<close>)\<close>

record question_record =
  q_id :: string
  q_from :: session_role
  q_attempt :: nat
  question :: string
  q_context :: "string option"
  askedAt :: string

record response_record =
  answer :: string
  respondedAt :: string

text \<open>
  The content of \<^verbatim>\<open>.opencode/pending_input.json\<close> as \<^verbatim>\<open>readPendingInput\<close> returns it
  (an absent or unreadable file reads as no questions and no responses).
\<close>

record pending_input_data =
  questions :: "question_record list"
  responses :: "string \<rightharpoonup> response_record"

definition dq :: string where
  "dq = [CHR 0x22]"

text \<open>One line per question that has no response yet: two spaces, the id, a colon and the first 60 characters of the question in double quotes.\<close>

definition pending_lines :: "pending_input_data \<Rightarrow> string list" where
  "pending_lines d =
     map (\<lambda>q. ''  '' @ q_id q @ '': '' @ dq @ take 60 (question q) @ dq)
       (filter (\<lambda>q. responses d (q_id q) = None) (questions d))"

definition not_found_message :: "string \<Rightarrow> pending_input_data \<Rightarrow> string" where
  "not_found_message rid d =
     ''Question ID '' @ dq @ rid @ dq @ '' not found in pending_input.json.''
     @ (let pending = join nl (pending_lines d) in
        if pending \<noteq> [] then nl @ nl @ ''Pending unanswered questions:'' @ nl @ pending
        else nl @ nl @ ''No pending questions found.'')"

text \<open>
  \<^verbatim>\<open>ralph_respond(id, answer)\<close> on the data read from the store; \<open>ts\<close> is \<^verbatim>\<open>nowISO()\<close>.
  On success it returns the tool's message and the data it writes back.
\<close>

definition tool_ralph_respond ::
  "string \<Rightarrow> string \<Rightarrow> string \<Rightarrow> pending_input_data \<Rightarrow> plugin_error + (string \<times> pending_input_data)" where
  "tool_ralph_respond ts rid ans d =
     (case find (\<lambda>q. q_id q = rid) (questions d) of
        None \<Rightarrow> Inl (QuestionNotFound rid (not_found_message rid d))
      | Some known \<Rightarrow>
          (case responses d rid of
             Some old \<Rightarrow>
               Inr (''Response updated for question '' @ rid
                      @ '' (was already answered; new answer overwrites old).'',
                    d\<lparr>responses := (responses d)(rid \<mapsto> \<lparr>answer = ans, respondedAt = ts\<rparr>)\<rparr>)
           | None \<Rightarrow>
               Inr (''Response recorded for question '' @ rid @ ''.'',
                    d\<lparr>responses := (responses d)(rid \<mapsto> \<lparr>answer = ans, respondedAt = ts\<rparr>)\<rparr>)))"

section \<open>Sub-agents (\<^verbatim>\<open>subagent_spawn\<close>)\<close>

text \<open>The name check \<^verbatim>\<open>/^[a-zA-Z0-9_-]+$/\<close>.\<close>

definition name_char :: "char \<Rightarrow> bool" where
  "name_char c = (word_char c \<or> c = CHR ''-'')"

definition valid_agent_name :: "string \<Rightarrow> bool" where
  "valid_agent_name n = (n \<noteq> [] \<and> list_all name_char n)"

text \<open>
  \<^verbatim>\<open>subAgentDir\<close> relative to the worktree, and a document in it. (\<^verbatim>\<open>path.join\<close> also
  normalises its result; the names that reach it here have no dots or separators.)
\<close>

definition subAgentDir :: "string \<Rightarrow> string" where
  "subAgentDir n = ''.opencode/agents/'' @ n"

definition agent_file :: "string \<Rightarrow> string \<Rightarrow> string" where
  "agent_file n f = subAgentDir n @ ''/'' @ f"

text \<open>\<^verbatim>\<open>bootstrapSubAgent\<close>: the plan is always written, the other three only when absent.\<close>

definition bootstrapSubAgent :: "prompt_templates \<Rightarrow> string \<Rightarrow> string \<Rightarrow> string \<Rightarrow> plugin_state \<Rightarrow> plugin_state" where
  "bootstrapSubAgent tpl ts n goal s =
     (ensureFile (agent_file n FILE_PREV) (''# Previous State'' @ nl @ nl @ ''(none yet)'' @ nl)
       (ensureFile (agent_file n FILE_NOTES)
          (''# Sub-Agent Notes and Learnings'' @ nl @ nl @ ''- '' @ ts @ '' created'' @ nl)
         (ensureFile (agent_file n FILE_CURR) (bootstrapCurrentState tpl)
           (writeFile (agent_file n FILE_PLAN)
              (''# Sub-Agent Plan: '' @ n @ nl @ nl @ ''## Goal'' @ nl @ goal @ nl @ nl
                 @ ''## Milestones'' @ nl @ ''- [ ] (fill in)'' @ nl @ nl
                 @ ''## Changelog'' @ nl @ ''- '' @ ts @ '' created'' @ nl)
              s))))"

record spawn_args =
  sp_name :: string
  sp_goal :: string
  sp_context :: "string option"

record spawn_result =
  sr_name :: string
  sr_sessionId :: string
  sr_stateDir :: string

definition is_running :: "sub_agent_record \<Rightarrow> bool" where
  "is_running a = (sa_status a = Running)"

text \<open>
  The tool. \<open>now\<close> is \<^verbatim>\<open>Date.now()\<close>, \<open>ts\<close> is \<^verbatim>\<open>nowISO()\<close>, \<open>host_id\<close> is the id the
  session host returns for the new session (\<open>None\<close> when its answer carries none) and
  \<open>ctx_sid\<close> is \<^verbatim>\<open>ctx.sessionID\<close>.
\<close>

definition tool_subagent_spawn ::
  "resolved_config \<Rightarrow> prompt_templates \<Rightarrow> nat \<Rightarrow> string \<Rightarrow> string option \<Rightarrow> string option
     \<Rightarrow> spawn_args \<Rightarrow> plugin_state \<Rightarrow> (plugin_error + spawn_result) \<times> plugin_state" where
  "tool_subagent_spawn cfg tpl now ts host_id ctx_sid args s =
     (let sessionID = nullish ctx_sid ''default'';
          s1 = ensureSession sessionID s;
          st = getSession sessionID s
      in if \<not> subAgentEnabled cfg then (Inl SubAgentsDisabled, s1)
         else if \<not> valid_agent_name (sp_name args) then (Inl (SubAgentNameInvalid (sp_name args)), s1)
         else if list_ex (\<lambda>a. sa_name a = sp_name args \<and> is_running a) (subAgents st)
           then (Inl (SubAgentAlreadyRunning (sp_name args)), s1)
         else if int (length (filter is_running (subAgents st))) \<ge> maxSubAgents cfg
           then (Inl (MaxSubAgentsReached (maxSubAgents cfg)), s1)
         else
           (let s2 = bootstrapSubAgent tpl ts (sp_name args) (sp_goal args) s1;
                stateDir = subAgentDir (sp_name args);
                promptText = interpolate (subagentPrompt tpl)
                  [(''name'', sp_name args), (''goal'', sp_goal args),
                   (''context'', (case sp_context args of
                                    None \<Rightarrow> []
                                  | Some c \<Rightarrow> if c = [] then []
                                              else nl @ ''Additional context:'' @ nl @ c)),
                   (''stateDir'', stateDir),
                   (''doneSentinel'', subagentDoneSentinel tpl),
                   (''doneHeading'', subagentDoneHeading tpl)];
                childSessionId = nullish host_id (''unknown-'' @ show_nat now);
                s3 = s2\<lparr>host_created := host_created s2 @ [(childSessionId, ''sub-agent: '' @ sp_name args)]\<rparr>;
                s4 = s3\<lparr>sessionMap := (sessionMap s3)(childSessionId \<mapsto> freshSession Subagent (attempt st))\<rparr>;
                s5 = mutateSession childSessionId (\<lambda>c. c\<lparr>lastProgressAt := Some now\<rparr>) s4;
                s6 = s5\<lparr>host_prompts := host_prompts s5 @ [(childSessionId, promptText)]\<rparr>;
                s7 = mutateSession sessionID
                       (\<lambda>p. p\<lparr>subAgents := subAgents p @
                          [\<lparr>sa_sessionId = childSessionId, sa_name = sp_name args, sa_goal = sp_goal args,
                            sa_spawnedAt = now, sa_status = Running, sa_result = None\<rparr>]\<rparr>) s6
            in (Inr \<lparr>sr_name = sp_name args, sr_sessionId = childSessionId, sr_stateDir = stateDir\<rparr>, s7)))"

section \<open>Review gating (\<^verbatim>\<open>ralph_request_review\<close>, \<^verbatim>\<open>ralph_run_reviewer\<close>)\<close>

definition upd_sup :: "(supervisor_state \<Rightarrow> supervisor_state) \<Rightarrow> plugin_state \<Rightarrow> plugin_state" where
  "upd_sup f s = s\<lparr>supervisor := f (supervisor s)\<rparr>"

definition role_name :: "session_role \<Rightarrow> string" where
  "role_name r = (case r of Main \<Rightarrow> ''main'' | Ralph \<Rightarrow> ''ralph'' | Worker \<Rightarrow> ''worker''
                  | Subagent \<Rightarrow> ''subagent'')"

text \<open>The attempt a review call is about: \<^verbatim>\<open>st.attempt > 0 ? st.attempt : Math.max(1, supervisor.attempt)\<close>.\<close>

definition review_attempt :: "session_state \<Rightarrow> plugin_state \<Rightarrow> nat" where
  "review_attempt st s = (if attempt st > 0 then attempt st else max 1 (sup_attempt (supervisor s)))"

definition getReviewerRuns :: "plugin_state \<Rightarrow> nat \<Rightarrow> nat" where
  "getReviewerRuns s a = nullish (reviewerRuns (supervisor s) a) 0"

definition incReviewerRuns :: "nat \<Rightarrow> plugin_state \<Rightarrow> plugin_state" where
  "incReviewerRuns a s =
     upd_sup (\<lambda>u. u\<lparr>reviewerRuns := (reviewerRuns u)(a \<mapsto> getReviewerRuns s a + 1)\<rparr>) s"

definition markReviewRequested :: "nat \<Rightarrow> string \<Rightarrow> plugin_state \<Rightarrow> plugin_state" where
  "markReviewRequested a note s = upd_sup (\<lambda>u. u\<lparr>reviewRequested := (reviewRequested u)(a \<mapsto> note)\<rparr>) s"

text \<open>\<^verbatim>\<open>ralph_request_review(note?)\<close>; the note is \<^verbatim>\<open>args.note?.trim() || "ready"\<close>.\<close>

definition request_note :: "string option \<Rightarrow> string" where
  "request_note note =
     (case map_option js_trim note of None \<Rightarrow> ''ready'' | Some n \<Rightarrow> if n = [] then ''ready'' else n)"

definition tool_ralph_request_review :: "string option \<Rightarrow> string option \<Rightarrow> plugin_state \<Rightarrow> plugin_state" where
  "tool_ralph_request_review note ctx_sid s =
     (let sessionID = nullish ctx_sid ''default'';
          s1 = ensureSession sessionID s;
          st = getSession sessionID s;
          a = review_attempt st s;
          n = request_note note
      in notifySupervisor (role_name (role st) @ ''/attempt-'' @ show_nat a)
           (''Marked attempt '' @ show_nat a @ '' ready for review: '' @ n) Info
           (markReviewRequested a n s1))"

record reviewer_args =
  rv_force :: "bool option"
  rv_wait :: "bool option"
  rv_timeout_minutes :: "nat option"
  rv_output_path :: "string option"

text \<open>
  What a \<^verbatim>\<open>ralph_run_reviewer\<close> call does: it answers with a rejection and its reason;
  or it enters the polling loop on the reviewer that is already active
  (\<^verbatim>\<open>waitForReviewerCompletion\<close> with that reviewer's name, attempt, output path and
  request note); or it answers that a reviewer is already running; or it starts a reviewer
  (name, session id, output path) and then, when \<open>waiting\<close>, enters the polling loop on
  it. The polling loop itself (re-reading the reviewer's scratch document every 5 seconds
  and writing the report once it is done) runs after the decision and is not modelled.
\<close>

datatype reviewer_outcome =
    Rejected string
  | WaitingForActive string nat string "string option"
  | AlreadyRunning string "nat option"
  | Started string string string bool

definition reviewerPrompt :: "prompt_templates \<Rightarrow> string \<Rightarrow> nat \<Rightarrow> string" where
  "reviewerPrompt tpl reviewerName a =
     join nl
       [''You are reviewer sub-agent '' @ dq @ reviewerName @ dq @ '' for attempt '' @ show_nat a @ ''.'',
        '''',
        ''Goal:'',
        ''- Review the repository changes with focus on correctness, edge cases, regressions, and maintainability.'',
        ''- Produce concise findings with severity (high/medium/low) and concrete fixes.'',
        '''',
        ''Protocol:'',
        ''- State directory: '' @ subAgentDir reviewerName,
        ''- Keep CURRENT_STATE.md updated while reviewing.'',
        ''- Write final report under heading '' @ [CHR 0x27] @ subagentDoneHeading tpl @ [CHR 0x27]
          @ '' in CURRENT_STATE.md.'',
        ''- Output '' @ [CHR 0x27] @ subagentDoneSentinel tpl @ [CHR 0x27] @ '' when finished.'',
        '''',
        ''Expected report sections:'',
        ''1) Verdict'',
        ''2) Findings'',
        ''3) Risk assessment'',
        ''4) Recommended next actions'',
        '''']"

text \<open>
  The tool. A disabled reviewer is refused before the caller is looked up, so that
  rejection leaves the state as it was. \<^verbatim>\<open>path.join\<close> of the output directory and the
  report's name is written as their concatenation with a separator.
\<close>

definition tool_ralph_run_reviewer ::
  "resolved_config \<Rightarrow> prompt_templates \<Rightarrow> nat \<Rightarrow> string \<Rightarrow> string option \<Rightarrow> string option
     \<Rightarrow> reviewer_args \<Rightarrow> plugin_state \<Rightarrow> reviewer_outcome \<times> plugin_state" where
  "tool_ralph_run_reviewer cfg tpl now ts host_id ctx_sid args s =
     (let sessionID = nullish ctx_sid ''default'';
          waitForDone = (rv_wait args \<noteq> Some False);
          force = (rv_force args = Some True)
      in if \<not> reviewerEnabled cfg \<and> \<not> force then (Rejected ''reviewer disabled'', s)
         else
           (let s1 = ensureSession sessionID s;
                st = getSession sessionID s;
                a = review_attempt st s;
                requested = reviewRequested (supervisor s) a;
                runs = getReviewerRuns s a
            in if \<not> force \<and> reviewerRequireExplicitReady cfg \<and> \<not> truthy_str requested
                 then (Rejected ''review not requested'', s1)
               else if \<not> force \<and> int runs \<ge> reviewerMaxRunsPerAttempt cfg
                 then (Rejected ''review run limit reached'', s1)
               else if truthy_str (activeReviewerName (supervisor s))
                 then (if waitForDone \<and> truthy_str (activeReviewerOutputPath (supervisor s))
                          \<and> truthy_num (activeReviewerAttempt (supervisor s))
                       then (WaitingForActive (nullish (activeReviewerName (supervisor s)) [])
                               (nullish (activeReviewerAttempt (supervisor s)) 0)
                               (nullish (activeReviewerOutputPath (supervisor s)) [])
                               (reviewRequested (supervisor s)
                                  (nullish (activeReviewerAttempt (supervisor s)) 0)),
                             s1)
                       else (AlreadyRunning (nullish (activeReviewerName (supervisor s)) [])
                               (activeReviewerAttempt (supervisor s)), s1))
               else
                 (let reviewerName = ''reviewer_'' @ show_nat a @ ''_'' @ show_nat now;
                      outputPath =
                        (case map_option js_trim (rv_output_path args) of
                           None \<Rightarrow> reviewerOutputDir cfg @ ''/review-attempt-'' @ show_nat a @ ''.md''
                         | Some p \<Rightarrow> if p = []
                                     then reviewerOutputDir cfg @ ''/review-attempt-'' @ show_nat a @ ''.md''
                                     else p);
                      s2 = bootstrapSubAgent tpl ts reviewerName (''Review attempt '' @ show_nat a) s1;
                      reviewerSessionId = nullish host_id (''reviewer-'' @ show_nat now);
                      s3 = s2\<lparr>host_created := host_created s2 @ [(reviewerSessionId, ''reviewer: '' @ reviewerName)]\<rparr>;
                      s4 = s3\<lparr>sessionMap := (sessionMap s3)(reviewerSessionId \<mapsto> freshSession Subagent a)\<rparr>;
                      s5 = mutateSession reviewerSessionId (\<lambda>c. c\<lparr>lastProgressAt := Some now\<rparr>) s4;
                      s6 = s5\<lparr>host_prompts := host_prompts s5 @ [(reviewerSessionId, reviewerPrompt tpl reviewerName a)]\<rparr>;
                      s7 = upd_sup (\<lambda>u. u\<lparr>activeReviewerName := Some reviewerName,
                                           activeReviewerAttempt := Some a,
                                           activeReviewerSessionId := Some reviewerSessionId,
                                           activeReviewerOutputPath := Some outputPath\<rparr>) s6;
                      s8 = incReviewerRuns a s7;
                      s9 = notifySupervisor (''reviewer/attempt-'' @ show_nat a)
                             (''Started reviewer '' @ reviewerName @ ''.'') Info s8
                  in (Started reviewerName reviewerSessionId outputPath waitForDone, s9))))"

section \<open>The outer loop\<close>

subsection \<open>Spawning the worker and the strategist\<close>

text \<open>
  \<^verbatim>\<open>spawnRlmWorker(attempt)\<close>: asks the host for a session, tracks it as the active
  worker, registers it, prompts it. It returns the worker's id and the new state.
  Neither spawn function looks at the active-id field it overwrites.
\<close>

definition spawnRlmWorker ::
  "prompt_templates \<Rightarrow> nat \<Rightarrow> string option \<Rightarrow> nat \<Rightarrow> plugin_state \<Rightarrow> string \<times> plugin_state" where
  "spawnRlmWorker tpl now host_id a s =
     (let workerId = nullish host_id (''worker-'' @ show_nat now);
          s1 = s\<lparr>host_created := host_created s @ [(workerId, ''rlm-worker-attempt-'' @ show_nat a)]\<rparr>;
          s2 = upd_sup (\<lambda>u. u\<lparr>currentWorkerSessionId := Some workerId\<rparr>) s1;
          s3 = s2\<lparr>sessionMap := (sessionMap s2)(workerId \<mapsto> freshSession Worker a)\<rparr>;
          s4 = mutateSession workerId (\<lambda>c. c\<lparr>lastProgressAt := Some now\<rparr>) s3;
          promptText = interpolate (workerPrompt tpl)
                         [(''attempt'', show_nat a), (''nextAttempt'', show_nat (a + 1))];
          s5 = s4\<lparr>host_prompts := host_prompts s4 @ [(workerId, promptText)]\<rparr>;
          s6 = notifySupervisor (''supervisor/attempt-'' @ show_nat a)
                 (''Spawned worker session '' @ workerId @ ''.'') Info s5
      in (workerId, s6))"

record spawn_worker_result =
  sw_workerSessionId :: string
  sw_attempt :: nat

text \<open>
  \<^verbatim>\<open>ralph_spawn_worker\<close>. The caller is \<^verbatim>\<open>ctx.sessionID ?? ""\<close>; it is looked up with
  \<^verbatim>\<open>sessionMap.get\<close>, which creates nothing.
\<close>

definition tool_ralph_spawn_worker ::
  "prompt_templates \<Rightarrow> nat \<Rightarrow> string option \<Rightarrow> string option \<Rightarrow> plugin_state
     \<Rightarrow> (plugin_error + spawn_worker_result) \<times> plugin_state" where
  "tool_ralph_spawn_worker tpl now host_id ctx_sid s =
     (let sessionID = nullish ctx_sid [] in
      case sessionMap s sessionID of
        None \<Rightarrow> (Inl SpawnWorkerNotStrategist, s)
      | Some st \<Rightarrow>
          if role st \<noteq> Ralph then (Inl SpawnWorkerNotStrategist, s)
          else if workerSpawned st then (Inl SpawnWorkerAlreadyCalled, s)
          else
            (let s1 = mutateSession sessionID (\<lambda>c. c\<lparr>workerSpawned := True\<rparr>) s;
                 (workerId, s2) = spawnRlmWorker tpl now host_id (attempt st) s1;
                 s3 = notifySupervisor (''ralph/attempt-'' @ show_nat (attempt st))
                        (''Delegated coding to worker session '' @ workerId @ ''.'') Info s2
             in (Inr \<lparr>sw_workerSessionId = workerId, sw_attempt = attempt st\<rparr>, s3)))"

definition spawnRalphSession ::
  "prompt_templates \<Rightarrow> nat \<Rightarrow> string option \<Rightarrow> nat \<Rightarrow> plugin_state \<Rightarrow> plugin_state" where
  "spawnRalphSession tpl now host_id a s =
     (let ralphId = nullish host_id (''ralph-'' @ show_nat now);
          s1 = s\<lparr>host_created := host_created s @ [(ralphId, ''ralph-strategist-attempt-'' @ show_nat a)]\<rparr>;
          s2 = upd_sup (\<lambda>u. u\<lparr>currentRalphSessionId := Some ralphId\<rparr>) s1;
          s3 = s2\<lparr>sessionMap := (sessionMap s2)(ralphId \<mapsto> freshSession Ralph a)\<rparr>;
          s4 = mutateSession ralphId (\<lambda>c. c\<lparr>lastProgressAt := Some now\<rparr>) s3;
          promptText = interpolate (ralphSessionPrompt tpl)
                         [(''attempt'', show_nat a), (''nextAttempt'', show_nat (a + 1))];
          s5 = s4\<lparr>host_prompts := host_prompts s4 @ [(ralphId, promptText)]\<rparr>
      in notifySupervisor (''supervisor/attempt-'' @ show_nat a)
           (''Spawned Ralph strategist session '' @ ralphId @ ''.'') Info s5)"

subsection \<open>Verification and rollover\<close>

datatype verdict = Pass | Fail | Unknown

definition verdict_name :: "verdict \<Rightarrow> string" where
  "verdict_name v = (case v of Pass \<Rightarrow> ''pass'' | Fail \<Rightarrow> ''fail'' | Unknown \<Rightarrow> ''unknown'')"

text \<open>What the external command answers when it is run (\<^verbatim>\<open>runCommand\<close>'s result).\<close>

record command_result =
  cmd_ok :: bool
  cmd_stdout :: string
  cmd_stderr :: string

text \<open>
  \<^verbatim>\<open>runVerify\<close> followed by \<^verbatim>\<open>runAndParseVerify\<close>: without a configured command the
  verdict is unknown and nothing is run; otherwise the command is run in
  \<^verbatim>\<open>verify.cwd ?? "."\<close> and the verdict is pass when it succeeded and fail when not.
  The details are the error output, a line feed and the output when there is error
  output, and the output otherwise.
\<close>

definition runAndParseVerify ::
  "resolved_config \<Rightarrow> command_result \<Rightarrow> plugin_state \<Rightarrow> (verdict \<times> string) \<times> plugin_state" where
  "runAndParseVerify cfg res s =
     (case verify cfg of
        None \<Rightarrow> ((Unknown, []), s)
      | Some v \<Rightarrow>
          if command v = [] then ((Unknown, []), s)
          else
            (let s1 = s\<lparr>commands_run := commands_run s @ [(command v, nullish (cwd v) ''.'')]\<rparr> in
             if cmd_ok res then ((Pass, cmd_stdout res), s1)
             else ((Fail, if cmd_stderr res \<noteq> [] then cmd_stderr res @ nl @ cmd_stdout res
                          else cmd_stdout res), s1)))"

definition em_dash :: string where
  "em_dash = [CHR 0xE2, CHR 0x80, CHR 0x94]"

text \<open>\<^verbatim>\<open>rolloverState(attemptN, verdict, details)\<close>; the scratch document reads as empty when absent.\<close>

definition rolloverState ::
  "prompt_templates \<Rightarrow> string \<Rightarrow> nat \<Rightarrow> verdict \<Rightarrow> string \<Rightarrow> plugin_state \<Rightarrow> plugin_state" where
  "rolloverState tpl ts attemptN v details s =
     (let summary = ''Attempt '' @ show_nat attemptN @ '' '' @ em_dash @ '' verification ''
                      @ verdict_name v @ ''.'' @ nl @ nl @ clampLines details 120;
          curr = nullish (files s FILE_CURR) []
      in writeFile FILE_NEXT_RALPH
           (''# Next Ralph Context'' @ nl @ nl @ ''- Timestamp: '' @ ts @ nl
              @ ''- Verdict: '' @ verdict_name v @ nl @ nl @ ''## Summary'' @ nl @ summary @ nl @ nl
              @ ''## Next Step'' @ nl
              @ interpolate (continuePrompt tpl)
                  [(''attempt'', show_nat attemptN), (''verdict'', verdict_name v)] @ nl)
           (writeFile FILE_CURR (bootstrapCurrentState tpl)
              (writeFile FILE_PREV
                 (''# Previous State (snapshot)'' @ nl @ nl @ ''Captured: '' @ ts @ nl @ nl @ curr @ nl)
                 s)))"

subsection \<open>The idle handlers\<close>

text \<open>
  \<^verbatim>\<open>handleWorkerIdle(workerSessionId)\<close>. \<open>res\<close> is what the verification command
  answers if it is run.
\<close>

definition handleWorkerIdle ::
  "resolved_config \<Rightarrow> prompt_templates \<Rightarrow> nat \<Rightarrow> string \<Rightarrow> string option \<Rightarrow> command_result
     \<Rightarrow> string \<Rightarrow> plugin_state \<Rightarrow> plugin_state" where
  "handleWorkerIdle cfg tpl now ts host_id res workerSessionId s =
     (if currentWorkerSessionId (supervisor s) \<noteq> Some workerSessionId then s
      else if sup_done (supervisor s) then s
      else if \<not> enabled cfg then s
      else if \<not> autoStartOnMainIdle cfg then s
      else
        (let workerState = sessionMap s workerSessionId;
             src = ''worker/attempt-'' @ show_nat (sup_attempt (supervisor s));
             s1 = upd_sup (\<lambda>u. u\<lparr>currentWorkerSessionId := None\<rparr>) s;
             s2 = (if (case workerState of None \<Rightarrow> True | Some w \<Rightarrow> reportedStatus w = None)
                   then notifySupervisor src
                          ''No explicit status reported before idle; continuing with implicit verification flow.''
                          Info s1
                   else s1);
             s3 = notifySupervisor src
                    (''Worker '' @ workerSessionId @ '' is idle; running verification.'') Info s2;
             ((v, details), s4) = runAndParseVerify cfg res s3
         in if v = Pass then
              (let s5 = upd_sup (\<lambda>u. u\<lparr>sup_done := True\<rparr>) s4;
                   s6 = writeFile FILE_NEXT_RALPH
                          (interpolate (doneFileContent tpl) [(''timestamp'', ts)]) s5
               in notifySupervisor src ''Verification passed. Loop complete.'' Info s6)
            else if int (sup_attempt (supervisor s4)) \<ge> maxAttempts cfg then
              notifySupervisor src
                (''Verification '' @ verdict_name v @ ''. Max attempts ('' @ show_int (maxAttempts cfg)
                   @ '') reached.'') Warning s4
            else
              (let s5 = notifySupervisor src
                          (''Verification '' @ verdict_name v @ ''. Preparing next attempt.'')
                          (if v = Fail then Warning else Info) s4;
                   s6 = upd_sup (\<lambda>u. u\<lparr>sup_attempt := sup_attempt u + 1\<rparr>) s5;
                   s7 = rolloverState tpl ts (sup_attempt (supervisor s6) - 1) v details s6
               in spawnRalphSession tpl now host_id (sup_attempt (supervisor s7)) s7)))"

text \<open>\<^verbatim>\<open>handleRalphSessionIdle(ralphSessionId)\<close>.\<close>

definition handleRalphSessionIdle :: "string \<Rightarrow> plugin_state \<Rightarrow> plugin_state" where
  "handleRalphSessionIdle ralphSessionId s =
     (if currentRalphSessionId (supervisor s) \<noteq> Some ralphSessionId then s
      else if sup_done (supervisor s) then s
      else
        (let s1 = upd_sup (\<lambda>u. u\<lparr>currentRalphSessionId := None\<rparr>) s;
             st = sessionMap s ralphSessionId;
             src = ''ralph/attempt-'' @ show_nat (case st of None \<Rightarrow> sup_attempt (supervisor s)
                                                  | Some r \<Rightarrow> attempt r);
             s2 = (case st of
                     None \<Rightarrow> s1
                   | Some r \<Rightarrow> if reportedStatus r = None
                               then notifySupervisor src
                                      ''No explicit strategist status reported before idle.'' Info s1
                               else s1)
         in if (case st of None \<Rightarrow> True | Some r \<Rightarrow> \<not> workerSpawned r)
            then notifySupervisor src ''Strategist went idle without spawning a worker.'' Warning s2
            else s2))"

text \<open>\<^verbatim>\<open>checkSetup(...).ready\<close>: a verification command is configured and the plan exists.\<close>

definition setup_ready :: "resolved_config \<Rightarrow> plugin_state \<Rightarrow> bool" where
  "setup_ready cfg s =
     ((case verify cfg of None \<Rightarrow> False | Some v \<Rightarrow> command v \<noteq> []) \<and> files s FILE_PLAN \<noteq> None)"

text \<open>\<^verbatim>\<open>handleMainIdle(sessionID)\<close>.\<close>

definition handleMainIdle ::
  "resolved_config \<Rightarrow> prompt_templates \<Rightarrow> nat \<Rightarrow> string option \<Rightarrow> string \<Rightarrow> plugin_state \<Rightarrow> plugin_state" where
  "handleMainIdle cfg tpl now host_id sessionID s =
     (if sup_done (supervisor s) then s
      else if sup_paused (supervisor s) then s
      else if truthy_str (currentRalphSessionId (supervisor s)) then s
      else if truthy_str (currentWorkerSessionId (supervisor s)) then s
      else if \<not> enabled cfg then s
      else if (case lastMainIdleAt (supervisor s) of
                 None \<Rightarrow> False | Some t \<Rightarrow> t \<noteq> 0 \<and> int now - int t < 800) then s
      else
        (let s1 = upd_sup (\<lambda>u. u\<lparr>lastMainIdleAt := Some now\<rparr>) s in
         if truthy_str (sup_sessionId (supervisor s1)) \<and> sup_sessionId (supervisor s1) \<noteq> Some sessionID
         then s1
         else
           (let s2 = (if \<not> truthy_str (sup_sessionId (supervisor s1))
                      then notifySupervisor ''supervisor'' ''Bound supervisor to main session.'' Info
                             (upd_sup (\<lambda>u. u\<lparr>sup_sessionId := Some sessionID\<rparr>) s1)
                      else s1)
            in if \<not> setup_ready cfg s2
               then notifySupervisor ''supervisor''
                      ''Auto-start skipped: setup incomplete. Run ralph_doctor(autofix=true) and ralph_bootstrap_plan().''
                      Warning s2
               else
                 (let s3 = upd_sup (\<lambda>u. u\<lparr>sup_attempt := 1\<rparr>) s2;
                      s4 = notifySupervisor ''supervisor'' ''Starting Ralph loop at attempt 1.'' Info s3
                  in spawnRalphSession tpl now host_id 1 s4))))"

subsection \<open>Heartbeat, session end and the event hook\<close>

definition maybeWarn ::
  "resolved_config \<Rightarrow> nat \<Rightarrow> string option \<Rightarrow> string \<Rightarrow> plugin_state \<Rightarrow> plugin_state" where
  "maybeWarn cfg now sessionId label s =
     (case sessionId of
        None \<Rightarrow> s
      | Some sid \<Rightarrow>
          if sid = [] then s
          else (case sessionMap s sid of
                  None \<Rightarrow> s
                | Some st \<Rightarrow>
                    (case lastProgressAt st of
                       None \<Rightarrow> s
                     | Some t \<Rightarrow>
                         if t = 0 then s
                         else if int now - int t < heartbeatMinutes cfg * 60000 then s
                         else mutateSession sid (\<lambda>c. c\<lparr>lastProgressAt := Some now\<rparr>)
                                (notifySupervisor (role_name (role st) @ ''/attempt-'' @ show_nat (attempt st))
                                   (label @ '' has no progress update for '' @ show_int (heartbeatMinutes cfg)
                                      @ ''+ minutes.'') Warning s))))"

definition emitHeartbeatWarnings :: "resolved_config \<Rightarrow> nat \<Rightarrow> plugin_state \<Rightarrow> plugin_state" where
  "emitHeartbeatWarnings cfg now s =
     (if sup_done (supervisor s) \<or> sup_paused (supervisor s) then s
      else
        (let s1 = maybeWarn cfg now (currentRalphSessionId (supervisor s)) ''Strategist'' s
         in maybeWarn cfg now (currentWorkerSessionId (supervisor s1)) ''Worker'' s1))"

definition clearSessionTracking :: "string \<Rightarrow> string \<Rightarrow> plugin_state \<Rightarrow> plugin_state" where
  "clearSessionTracking sessionId reason s =
     (let st = sessionMap s sessionId;
          s1 = s\<lparr>sessionMap := (sessionMap s)(sessionId := None)\<rparr>;
          isRalph = (currentRalphSessionId (supervisor s1) = Some sessionId);
          s2 = (if isRalph then upd_sup (\<lambda>u. u\<lparr>currentRalphSessionId := None\<rparr>) s1 else s1);
          isWorker = (currentWorkerSessionId (supervisor s2) = Some sessionId);
          s3 = (if isWorker then upd_sup (\<lambda>u. u\<lparr>currentWorkerSessionId := None\<rparr>) s2 else s2);
          isReviewer = (activeReviewerSessionId (supervisor s3) = Some sessionId);
          s4 = (if isReviewer
                then upd_sup (\<lambda>u. u\<lparr>activeReviewerSessionId := None, activeReviewerName := None,
                                     activeReviewerAttempt := None, activeReviewerOutputPath := None\<rparr>) s3
                else s3)
      in case st of
           None \<Rightarrow> s4
         | Some r \<Rightarrow>
             if isRalph \<or> isWorker \<or> isReviewer
             then notifySupervisor (role_name (role r) @ ''/attempt-'' @ show_nat (attempt r))
                    (role_name (role r) @ '' session ended ('' @ reason @ '').'') Info s4
             else s4)"

datatype event_type =
  SessionCreated | SessionStatus | SessionIdle | SessionClosed | SessionEnded | SessionDeleted | OtherEvent

text \<open>
  An event: its type, its session id
  (\<^verbatim>\<open>event?.sessionID ?? event?.session_id ?? event?.session?.id\<close>) and, for a status
  event, the status in lower case.
\<close>

record event =
  ev_type :: event_type
  ev_sessionID :: "string option"
  ev_status :: string

definition event_type_name :: "event_type \<Rightarrow> string" where
  "event_type_name t =
     (case t of SessionCreated \<Rightarrow> ''session.created'' | SessionStatus \<Rightarrow> ''session.status''
      | SessionIdle \<Rightarrow> ''session.idle'' | SessionClosed \<Rightarrow> ''session.closed''
      | SessionEnded \<Rightarrow> ''session.ended'' | SessionDeleted \<Rightarrow> ''session.deleted''
      | OtherEvent \<Rightarrow> ''other'')"

text \<open>
  The \<^verbatim>\<open>event\<close> hook. An event without a (non-empty) session id does nothing. An idle
  event is dropped while supervision is done or paused; otherwise it goes to the handler
  of the active worker, of the active strategist, or of the main session, in that order.
\<close>

definition handle_event ::
  "resolved_config \<Rightarrow> prompt_templates \<Rightarrow> nat \<Rightarrow> string \<Rightarrow> string option \<Rightarrow> command_result
     \<Rightarrow> event \<Rightarrow> plugin_state \<Rightarrow> plugin_state" where
  "handle_event cfg tpl now ts host_id res ev s =
     (if \<not> truthy_str (ev_sessionID ev) then s
      else
        (let sessionID = nullish (ev_sessionID ev) [] in
         case ev_type ev of
           SessionCreated \<Rightarrow> s
         | OtherEvent \<Rightarrow> s
         | SessionStatus \<Rightarrow>
             if sup_done (supervisor s) \<or> sup_paused (supervisor s) then s
             else (case sessionMap s sessionID of
                     None \<Rightarrow> s
                   | Some st \<Rightarrow>
                       if role st = Worker \<and> currentWorkerSessionId (supervisor s) \<noteq> Some sessionID then s
                       else if role st = Ralph \<and> currentRalphSessionId (supervisor s) \<noteq> Some sessionID then s
                       else
                         (let s1 = mutateSession sessionID (\<lambda>c. c\<lparr>lastProgressAt := Some now\<rparr>) s in
                          if ev_status ev = ''error''
                          then notifySupervisor (role_name (role st) @ ''/attempt-'' @ show_nat (attempt st))
                                 ''Session reported error status.'' Error s1
                          else s1))
         | SessionIdle \<Rightarrow>
             if sup_done (supervisor s) \<or> sup_paused (supervisor s) then s
             else
               (let s1 = emitHeartbeatWarnings cfg now s in
                if currentWorkerSessionId (supervisor s1) = Some sessionID
                  then handleWorkerIdle cfg tpl now ts host_id res sessionID s1
                else if currentRalphSessionId (supervisor s1) = Some sessionID
                  then handleRalphSessionIdle sessionID s1
                else handleMainIdle cfg tpl now host_id sessionID s1)
         | SessionClosed \<Rightarrow> clearSessionTracking sessionID (event_type_name SessionClosed) s
         | SessionEnded \<Rightarrow> clearSessionTracking sessionID (event_type_name SessionEnded) s
         | SessionDeleted \<Rightarrow> clearSessionTracking sessionID (event_type_name SessionDeleted) s))"

subsection \<open>Starting, pausing and resuming supervision\<close>

text \<open>\<^verbatim>\<open>ralph_pause_supervision\<close> and \<^verbatim>\<open>ralph_resume_supervision\<close>.\<close>

definition tool_ralph_pause_supervision :: "string option \<Rightarrow> plugin_state \<Rightarrow> plugin_state" where
  "tool_ralph_pause_supervision reason s =
     notifySupervisor ''supervisor''
       (case reason of None \<Rightarrow> ''Supervision paused.''
        | Some r \<Rightarrow> if r = [] then ''Supervision paused.'' else ''Supervision paused: '' @ r)
       Warning (upd_sup (\<lambda>u. u\<lparr>sup_paused := True\<rparr>) s)"

text \<open>
  What the tools that can start the loop answer: the loop was started at an attempt; the
  supervisor is bound to another session (named in the answer); the setup is not ready;
  no start was asked for; the loop is marked done; or a strategist or worker is already
  tracked (or, for \<^verbatim>\<open>ralph_create_supervisor_session\<close>, the loop is done).
\<close>

datatype start_outcome =
    StartedLoop nat
  | BoundElsewhere string
  | SetupNotReady
  | StartNotRequested
  | LoopMarkedDone
  | LoopAlreadyRunning

definition tool_ralph_resume_supervision ::
  "prompt_templates \<Rightarrow> nat \<Rightarrow> string option \<Rightarrow> string option \<Rightarrow> bool option \<Rightarrow> plugin_state
     \<Rightarrow> start_outcome \<times> plugin_state" where
  "tool_ralph_resume_supervision tpl now host_id ctx_sid start_loop s =
     (let sessionID = nullish ctx_sid ''default'';
          s1 = (if \<not> truthy_str (sup_sessionId (supervisor s))
                then upd_sup (\<lambda>u. u\<lparr>sup_sessionId := Some sessionID\<rparr>) s else s);
          s2 = upd_sup (\<lambda>u. u\<lparr>sup_paused := False\<rparr>) s1;
          s3 = notifySupervisor ''supervisor'' ''Supervision resumed.'' Info s2
      in if \<not> nullish start_loop False then (StartNotRequested, s3)
         else if sup_done (supervisor s3) then (LoopMarkedDone, s3)
         else if truthy_str (currentRalphSessionId (supervisor s3))
                 \<or> truthy_str (currentWorkerSessionId (supervisor s3))
           then (LoopAlreadyRunning, s3)
         else
           (let s4 = upd_sup (\<lambda>u. u\<lparr>sup_attempt := max 1 (sup_attempt u)\<rparr>) s3
            in (StartedLoop (sup_attempt (supervisor s4)),
                spawnRalphSession tpl now host_id (sup_attempt (supervisor s4)) s4)))"

record create_args =
  ca_start_loop :: "bool option"
  ca_force_rebind :: "bool option"
  ca_restart_if_done :: "bool option"

text \<open>\<^verbatim>\<open>ralph_create_supervisor_session\<close>: before it spawns the strategist of attempt 1 it checks that no strategist and no worker is tracked.\<close>

definition tool_ralph_create_supervisor_session ::
  "resolved_config \<Rightarrow> prompt_templates \<Rightarrow> nat \<Rightarrow> string option \<Rightarrow> string option \<Rightarrow> create_args
     \<Rightarrow> plugin_state \<Rightarrow> start_outcome \<times> plugin_state" where
  "tool_ralph_create_supervisor_session cfg tpl now host_id ctx_sid args s =
     (let sessionID = nullish ctx_sid ''default'' in
      if truthy_str (sup_sessionId (supervisor s)) \<and> sup_sessionId (supervisor s) \<noteq> Some sessionID
           \<and> ca_force_rebind args \<noteq> Some True
      then (BoundElsewhere (nullish (sup_sessionId (supervisor s)) []), s)
      else
        (let s1 = upd_sup (\<lambda>u. u\<lparr>sup_sessionId := Some sessionID, sup_paused := False\<rparr>) s;
             s2 = notifySupervisor ''supervisor'' ''Supervisor bound via tool call.'' Info s1
         in if \<not> setup_ready cfg s2
            then (SetupNotReady,
                  notifySupervisor ''supervisor''
                    ''Setup is not ready. Run ralph_doctor(autofix=true) and ralph_bootstrap_plan().''
                    Warning s2)
            else if \<not> nullish (ca_start_loop args) True then (StartNotRequested, s2)
            else
              (let s3 = (if sup_done (supervisor s2) \<and> ca_restart_if_done args = Some True
                         then notifySupervisor ''supervisor''
                                ''Supervisor done-state reset for a new run.'' Info
                                (upd_sup (\<lambda>u. u\<lparr>sup_done := False, sup_paused := False,
                                                 currentRalphSessionId := None,
                                                 currentWorkerSessionId := None,
                                                 activeReviewerName := None,
                                                 activeReviewerAttempt := None,
                                                 activeReviewerSessionId := None,
                                                 activeReviewerOutputPath := None\<rparr>) s2)
                         else s2)
               in if truthy_str (currentRalphSessionId (supervisor s3))
                       \<or> truthy_str (currentWorkerSessionId (supervisor s3)) \<or> sup_done (supervisor s3)
                  then (LoopAlreadyRunning, s3)
                  else
                    (let s4 = upd_sup (\<lambda>u. u\<lparr>sup_attempt := 1\<rparr>) s3;
                         s5 = notifySupervisor ''supervisor''
                                ''Starting Ralph loop at attempt 1 (manual start).'' Info s4
                     in (StartedLoop 1, spawnRalphSession tpl now host_id 1 s5)))))"

section \<open>Concrete inputs\<close>

text \<open>
  Inputs at which the theorems below are instantiated. The templates are short ones, as
  the environment overrides allow; the gate error is the built-in default.
\<close>

definition witness_templates :: prompt_templates where
  "witness_templates =
     \<lparr>continuePrompt = ''Attempt {{attempt}}: continue after {{verdict}}.'',
      doneFileContent = ''{{timestamp}} DONE'',
      subagentPrompt = ''You are {{name}}. Goal: {{goal}}{{context}} Files: {{stateDir}}/'',
      subagentDoneSentinel = ''SUB_AGENT_DONE'',
      subagentDoneHeading = ''## Final Result'',
      bootstrapCurrentState = ''# Current State'',
      contextGateError =
        ''File-first rule violated: call ralph_load_context() before using write / edit / bash.'',
      workerPrompt = ''Worker attempt {{attempt}}'',
      ralphSessionPrompt = ''Strategist attempt {{attempt}}''\<rparr>"

definition edit_by_w1 :: tool_input where
  "edit_by_w1 = \<lparr>in_sessionID = Some ''w1'', in_session_id = None, in_session_dot_id = None,
                  in_tool = Some ''edit'', in_call_name = None\<rparr>"

definition worker_registered :: plugin_state where
  "worker_registered = (initial_state Map.empty)\<lparr>sessionMap := [''w1'' \<mapsto> freshSession Worker 1]\<rparr>"

definition three_lines :: string where
  "three_lines = ''a'' @ nl @ ''b'' @ nl @ ''c''"

definition three_line_store :: plugin_state where
  "three_line_store = initial_state [''CONTEXT_FOR_RLM.md'' \<mapsto> three_lines]"

definition example_pending :: pending_input_data where
  "example_pending =
     \<lparr>questions =
        [\<lparr>q_id = ''ask-1'', q_from = Worker, q_attempt = 1, question = ''Which port?'',
          q_context = None, askedAt = ''t0''\<rparr>,
         \<lparr>q_id = ''ask-2'', q_from = Worker, q_attempt = 1, question = ''Which host?'',
          q_context = None, askedAt = ''t1''\<rparr>],
      responses = [''ask-1'' \<mapsto> \<lparr>answer = ''8080'', respondedAt = ''t2''\<rparr>]\<rparr>"


definition dotdot_x :: spawn_args where
  "dotdot_x = \<lparr>sp_name = ''../x'', sp_goal = ''escape'', sp_context = None\<rparr>"

definition docs_args :: spawn_args where
  "docs_args = \<lparr>sp_name = ''docs'', sp_goal = ''write docs'', sp_context = None\<rparr>"

definition tests_args :: spawn_args where
  "tests_args = \<lparr>sp_name = ''tests'', sp_goal = ''write tests'', sp_context = None\<rparr>"

definition docs_running :: plugin_state where
  "docs_running = (initial_state Map.empty)\<lparr>sessionMap :=
     [''w1'' \<mapsto> (freshSession Worker 1)\<lparr>subAgents :=
        [\<lparr>sa_sessionId = ''c1'', sa_name = ''docs'', sa_goal = ''write docs'', sa_spawnedAt = 5,
          sa_status = Running, sa_result = None\<rparr>]\<rparr>]\<rparr>"


definition reviewer_on :: resolved_config where
  "reviewer_on = CONFIG_DEFAULTS\<lparr>reviewerEnabled := True\<rparr>"

definition plain_run :: reviewer_args where
  "plain_run = \<lparr>rv_force = None, rv_wait = Some False, rv_timeout_minutes = None, rv_output_path = None\<rparr>"


text \<open>
  A run of the loop: the plan exists and a verification command is configured; the main
  session starts supervision by hand (strategist \<^verbatim>\<open>r1\<close>, attempt 1), and the
  strategist delegates to worker \<^verbatim>\<open>w1\<close>.
\<close>

definition loop_config :: resolved_config where
  "loop_config = CONFIG_DEFAULTS\<lparr>autoStartOnMainIdle := True,
                                  verify := Some \<lparr>command = [''make'', ''test''], cwd = None\<rparr>\<rparr>"

definition disabled_config :: resolved_config where
  "disabled_config = loop_config\<lparr>enabled := False\<rparr>"

definition manual_config :: resolved_config where
  "manual_config = CONFIG_DEFAULTS\<lparr>verify := Some \<lparr>command = [''make'', ''test''], cwd = None\<rparr>\<rparr>"

definition planned :: plugin_state where
  "planned = initial_state [''PLAN.md'' \<mapsto> ''# Plan'']"

definition start_args :: create_args where
  "start_args = \<lparr>ca_start_loop = None, ca_force_rebind = None, ca_restart_if_done = None\<rparr>"

definition strategist_running :: plugin_state where
  "strategist_running =
     snd (tool_ralph_create_supervisor_session loop_config witness_templates 1000 (Some ''r1'')
            (Some ''main'') start_args planned)"

definition worker_running :: plugin_state where
  "worker_running =
     snd (tool_ralph_spawn_worker witness_templates 2000 (Some ''w1'') (Some ''r1'') strategist_running)"

definition idle :: "string \<Rightarrow> event" where
  "idle sid = \<lparr>ev_type = SessionIdle, ev_sessionID = Some sid, ev_status = []\<rparr>"

definition failing :: command_result where
  "failing = \<lparr>cmd_ok = False, cmd_stdout = ''1 test failed'', cmd_stderr = []\<rparr>"

definition passing :: command_result where
  "passing = \<lparr>cmd_ok = True, cmd_stdout = ''ok'', cmd_stderr = []\<rparr>"

text \<open>
  Three continuations. In the first the strategist goes idle before it has delegated. In
  the second supervision is paused while both sessions run, the strategist's idle event
  arrives during the pause, and supervision is resumed. In the third, after the
  strategist \<^verbatim>\<open>r1\<close> went idle without delegating, supervision is started again
  (strategist \<^verbatim>\<open>r2\<close>), and \<^verbatim>\<open>r2\<close> delegates to worker \<^verbatim>\<open>w1\<close>.
\<close>

definition strategist_idled :: plugin_state where
  "strategist_idled =
     handle_event loop_config witness_templates 1500 ''t'' None failing (idle ''r1'') strategist_running"

definition paused_then_resumed :: plugin_state where
  "paused_then_resumed =
     snd (tool_ralph_resume_supervision witness_templates 2600 None (Some ''main'') None
            (handle_event loop_config witness_templates 2500 ''t'' None failing (idle ''r1'')
               (tool_ralph_pause_supervision None worker_running)))"

definition restarted :: plugin_state where
  "restarted =
     snd (tool_ralph_create_supervisor_session loop_config witness_templates 1600 (Some ''r2'')
            (Some ''main'') start_args strategist_idled)"

definition delegated :: plugin_state where
  "delegated = snd (tool_ralph_spawn_worker witness_templates 2000 (Some ''w1'') (Some ''r2'') restarted)"

section \<open>Properties of the configuration resolver\<close>

lemma toBoundedInt_upper: "toBoundedInt v fallback mn mx \<le> mx"
  by (simp add: toBoundedInt_def Let_def)

lemma toBoundedInt_lower: "mn \<le> mx \<Longrightarrow> mn \<le> toBoundedInt v fallback mn mx"
  by (simp add: toBoundedInt_def Let_def)

text \<open>
  Claim C7. For every raw configuration, whatever its numeric fields hold (absent, NaN,
  infinite, fractional, negative, huge, and also a grep threshold above the slice
  limit), the resolved configuration has
  \<open>grepRequiredThresholdLines \<le> maxRlmSliceLines\<close>, \<open>maxRlmSliceLines\<close> in
  \<open>[10, 2000]\<close> and \<open>maxAttempts\<close> in \<open>[1, 500]\<close>.
\<close>

theorem resolveConfig_bounds:
  "grepRequiredThresholdLines (resolveConfig raw) \<le> maxRlmSliceLines (resolveConfig raw)
   \<and> 10 \<le> maxRlmSliceLines (resolveConfig raw)
   \<and> maxRlmSliceLines (resolveConfig raw) \<le> 2000
   \<and> 1 \<le> maxAttempts (resolveConfig raw)
   \<and> maxAttempts (resolveConfig raw) \<le> 500"
  by (simp add: resolveConfig_def Let_def toBoundedInt_upper toBoundedInt_lower)


section \<open>Frame lemmas: what each primitive leaves unchanged\<close>

lemma ensureSession_frame [simp]:
  "files (ensureSession sid s) = files s"
  "host_created (ensureSession sid s) = host_created s"
  "host_prompts (ensureSession sid s) = host_prompts s"
  "commands_run (ensureSession sid s) = commands_run s"
  "supervisor (ensureSession sid s) = supervisor s"
  by (simp_all add: ensureSession_def split: option.splits)

lemma getSession_ensureSession [simp]: "getSession sid (ensureSession sid' s) = getSession sid s"
  by (simp add: getSession_def ensureSession_def split: option.splits)

lemma notifySupervisor_frame [simp]:
  "files (notifySupervisor src msg lvl s) = files s"
  "host_created (notifySupervisor src msg lvl s) = host_created s"
  "host_prompts (notifySupervisor src msg lvl s) = host_prompts s"
  "commands_run (notifySupervisor src msg lvl s) = commands_run s"
  "supervisor (notifySupervisor src msg lvl s) = supervisor s"
  "sessionMap (notifySupervisor src msg lvl s) = sessionMap s"
  by (simp_all add: notifySupervisor_def)

lemma upd_sup_frame [simp]:
  "files (upd_sup f s) = files s"
  "host_created (upd_sup f s) = host_created s"
  "host_prompts (upd_sup f s) = host_prompts s"
  "commands_run (upd_sup f s) = commands_run s"
  "supervisor (upd_sup f s) = f (supervisor s)"
  "sessionMap (upd_sup f s) = sessionMap s"
  by (simp_all add: upd_sup_def)

lemma mutateSession_frame [simp]:
  "files (mutateSession sid f s) = files s"
  "host_created (mutateSession sid f s) = host_created s"
  "host_prompts (mutateSession sid f s) = host_prompts s"
  "commands_run (mutateSession sid f s) = commands_run s"
  "supervisor (mutateSession sid f s) = supervisor s"
  "sessionMap (mutateSession sid f s) = (sessionMap s)(sid \<mapsto> f (getSession sid s))"
  by (simp_all add: mutateSession_def)

lemma writeFile_frame [simp]:
  "files (writeFile p txt s) = (files s)(p \<mapsto> txt)"
  "host_created (writeFile p txt s) = host_created s"
  "host_prompts (writeFile p txt s) = host_prompts s"
  "commands_run (writeFile p txt s) = commands_run s"
  "supervisor (writeFile p txt s) = supervisor s"
  "sessionMap (writeFile p txt s) = sessionMap s"
  by (simp_all add: writeFile_def)

lemma ensureFile_frame [simp]:
  "host_created (ensureFile p txt s) = host_created s"
  "host_prompts (ensureFile p txt s) = host_prompts s"
  "commands_run (ensureFile p txt s) = commands_run s"
  "supervisor (ensureFile p txt s) = supervisor s"
  "sessionMap (ensureFile p txt s) = sessionMap s"
  by (simp_all add: ensureFile_def split: option.splits)

lemma bootstrapSubAgent_frame [simp]:
  "host_created (bootstrapSubAgent tpl ts n goal s) = host_created s"
  "host_prompts (bootstrapSubAgent tpl ts n goal s) = host_prompts s"
  "commands_run (bootstrapSubAgent tpl ts n goal s) = commands_run s"
  "supervisor (bootstrapSubAgent tpl ts n goal s) = supervisor s"
  "sessionMap (bootstrapSubAgent tpl ts n goal s) = sessionMap s"
  by (simp_all add: bootstrapSubAgent_def)

section \<open>Properties of the protocol gate\<close>

lemma destructive_not_safe: "t \<in> set DESTRUCTIVE_TOOLS \<Longrightarrow> t \<notin> set SAFE_TOOLS \<and> t \<noteq> []"
  by (auto simp: DESTRUCTIVE_TOOLS_def SAFE_TOOLS_def)

text \<open>
  Claim C4. For a tool invocation from a session with a registry record, the hook throws
  the configured context-gate error exactly when gating is enabled, the session's role
  is worker or subagent, the tool is one of write, edit, bash, delete, move, rename, and
  the session's \<open>loadedContext\<close> flag is false; in every other case (context loaded, a
  tool outside the destructive set, role main or strategist, gating switched off) it
  returns normally.
\<close>

theorem gate_decision:
  assumes "input_session inp = Some sid" and "sid \<noteq> []" and "sessionMap s sid = Some st"
  shows "tool_execute_before cfg tpl s inp =
     (if gateDestructiveToolsUntilContextLoaded cfg \<and> (role st = Worker \<or> role st = Subagent)
         \<and> input_tool inp \<in> set DESTRUCTIVE_TOOLS \<and> \<not> loadedContext st
      then Inl (ContextGateError (contextGateError tpl)) else Inr ())"
  using assms destructive_not_safe [of "input_tool inp"]
  by (auto simp: tool_execute_before_def truthy_str_def nullish_def)

text \<open>
  The sequence test: a freshly registered worker's \<^verbatim>\<open>edit\<close> is rejected with the gate
  error, and the same \<^verbatim>\<open>edit\<close> passes once the worker has called
  \<^verbatim>\<open>ralph_load_context\<close>.
\<close>

theorem gate_decision_witness:
  "tool_execute_before CONFIG_DEFAULTS witness_templates worker_registered edit_by_w1
     = Inl (ContextGateError (contextGateError witness_templates))
   \<and> tool_execute_before CONFIG_DEFAULTS witness_templates
        (ralph_load_context_effect (Some ''w1'') worker_registered) edit_by_w1 = Inr ()"
proof -
  have a: "input_session edit_by_w1 = Some ''w1''"
    by (simp add: input_session_def edit_by_w1_def coalesce_def)
  have b: "sessionMap worker_registered ''w1'' = Some (freshSession Worker 1)"
    by (simp add: worker_registered_def)
  have c: "sessionMap (ralph_load_context_effect (Some ''w1'') worker_registered) ''w1''
             = Some ((freshSession Worker 1)\<lparr>loadedContext := True\<rparr>)"
    by (simp add: ralph_load_context_effect_def mutateSession_def getSession_def nullish_def
        worker_registered_def)
  have t: "input_tool edit_by_w1 = ''edit''"
    by (simp add: input_tool_def edit_by_w1_def coalesce_def nullish_def)
  show ?thesis
    using gate_decision [OF a _ b, of CONFIG_DEFAULTS witness_templates]
          gate_decision [OF a _ c, of CONFIG_DEFAULTS witness_templates]
    by (simp add: t CONFIG_DEFAULTS_def freshSession_def DESTRUCTIVE_TOOLS_def)
qed

section \<open>Properties of \<^verbatim>\<open>rlm_slice\<close>\<close>

lemma js_slice_length: "length (js_slice xs a b) = min b (length xs) - a"
  by (simp add: js_slice_def)

lemma js_slice_nth: "k < length (js_slice xs a b) \<Longrightarrow> js_slice xs a b ! k = xs ! (a + k)"
proof -
  assume k: "k < length (js_slice xs a b)"
  then have "k < length xs - a \<and> k < b - a"
    by (simp add: js_slice_def)
  then have "a \<le> length xs" and "k < b - a"
    by arith+
  then show ?thesis
    by (simp add: js_slice_def)
qed

text \<open>
  Claim C10, as amended. For a call that satisfies the argument schema (both line
  numbers at least 1): \<^verbatim>\<open>rlm_slice\<close> throws whenever \<open>endLine < startLine\<close>, whenever
  the span \<open>endLine - startLine + 1\<close> exceeds \<open>maxRlmSliceLines\<close>, and, with
  \<open>requireGrepBeforeLargeSlice\<close> on, whenever the span is at least
  \<open>grepRequiredThresholdLines\<close> and the session has no \<^verbatim>\<open>rlm_grep\<close> recorded within
  the last 5 minutes. Otherwise, when the document cannot be read it throws the file
  error, and when it can be read it returns the lines of the document numbered
  \<open>startLine\<close> to \<open>endLine\<close>, as far as the document has them, joined by line feeds:
  the \<open>k\<close>-th returned line is line \<open>startLine + k\<close> of the document, and there are
  \<open>min endLine total - (startLine - 1)\<close> of them.
\<close>

theorem rlm_slice_outcome:
  assumes "1 \<le> startLine args" and "1 \<le> endLine args"
  shows
   "(endLine args < startLine args
       \<or> int (endLine args - startLine args + 1) > maxRlmSliceLines cfg
       \<or> (requireGrepBeforeLargeSlice cfg
            \<and> grepRequiredThresholdLines cfg \<le> int (endLine args - startLine args + 1)
            \<and> \<not> recentGrep (getSession (nullish ctx_sid ''default'') s) now)
      \<longrightarrow> (\<exists>e. fst (tool_rlm_slice cfg now ctx_sid args s) = Threw e))
    \<and> (startLine args \<le> endLine args
        \<and> int (endLine args - startLine args + 1) \<le> maxRlmSliceLines cfg
        \<and> (requireGrepBeforeLargeSlice cfg
             \<and> grepRequiredThresholdLines cfg \<le> int (endLine args - startLine args + 1)
             \<longrightarrow> recentGrep (getSession (nullish ctx_sid ''default'') s) now)
      \<longrightarrow> (case files s (nullish (sl_file args) FILE_RLM_CTX) of
             None \<Rightarrow> fst (tool_rlm_slice cfg now ctx_sid args s)
                       = Threw (FileError (nullish (sl_file args) FILE_RLM_CTX))
           | Some raw \<Rightarrow>
               (\<exists>res ls. fst (tool_rlm_slice cfg now ctx_sid args s) = Returned res
                  \<and> res_text res = join nl ls
                  \<and> length ls = min (endLine args) (length (split_lines raw)) - (startLine args - 1)
                  \<and> (\<forall>k < length ls. ls ! k = split_lines raw ! (startLine args - 1 + k)))))"
  using assms
  by (auto simp: tool_rlm_slice_def Let_def readFile_def js_slice_length js_slice_nth
      split: option.splits)

text \<open>
  With the default configuration, lines 2 to 3 of a three-line document are returned:
  two lines, the document's second and third.
\<close>

theorem rlm_slice_outcome_witness:
  "(1::nat) \<le> 2 \<and> (1::nat) \<le> 3
   \<and> (\<exists>res. fst (tool_rlm_slice CONFIG_DEFAULTS 0 None
                    \<lparr>sl_file = None, startLine = 2, endLine = 3\<rparr> three_line_store) = Returned res
          \<and> res_text res = ''b'' @ nl @ ''c'')"
proof -
  have l: "split_lines three_lines = [''a'', ''b'', ''c'']"
    by (simp add: three_lines_def split_lines_def nl_def)
  have "\<exists>res ls. fst (tool_rlm_slice CONFIG_DEFAULTS 0 None
                    \<lparr>sl_file = None, startLine = 2, endLine = 3\<rparr> three_line_store) = Returned res
          \<and> res_text res = join nl ls \<and> length ls = 2
          \<and> (\<forall>k < length ls. ls ! k = [''a'', ''b'', ''c''] ! (1 + k))"
    using rlm_slice_outcome [of "\<lparr>sl_file = None, startLine = 2, endLine = 3\<rparr>" CONFIG_DEFAULTS
        None three_line_store 0]
    by (simp add: l CONFIG_DEFAULTS_def three_line_store_def initial_state_def nullish_def
        FILE_RLM_CTX_def del: nth_Cons_Suc One_nat_def)
  then obtain res ls where
    r: "fst (tool_rlm_slice CONFIG_DEFAULTS 0 None
               \<lparr>sl_file = None, startLine = 2, endLine = 3\<rparr> three_line_store) = Returned res"
    and t: "res_text res = join nl ls"
    and n: "length ls = 2"
    and k: "\<forall>k < length ls. ls ! k = [''a'', ''b'', ''c''] ! (1 + k)"
    by blast
  from n k have "ls ! 0 = ''b''" and "ls ! 1 = ''c''"
    by simp_all
  with n have "ls = [''b'', ''c'']"
    by (cases ls; cases "tl ls") auto
  with r t show ?thesis
    by simp
qed

text \<open>
  The claim as first stated (``otherwise it returns the requested range'') fails where
  the document does not exist: lines 1 to 1 with the default configuration violate none
  of the three rejection conditions, and the call throws the file error.
\<close>

theorem rlm_slice_missing_file:
  "fst (tool_rlm_slice CONFIG_DEFAULTS 0 None \<lparr>sl_file = None, startLine = 1, endLine = 1\<rparr>
          (initial_state Map.empty))
     = Threw (FileError ''CONTEXT_FOR_RLM.md'')"
  by (simp add: tool_rlm_slice_def Let_def CONFIG_DEFAULTS_def initial_state_def readFile_def
      ensureSession_def nullish_def FILE_RLM_CTX_def)

section \<open>Properties of \<^verbatim>\<open>ralph_respond\<close>\<close>

lemma sublist_join: "x \<in> set xs \<Longrightarrow> sublist x (join sep xs)"
proof (induction sep xs rule: join.induct)
  case (1 sep)
  then show ?case by simp
next
  case (2 sep x')
  then show ?case by simp
next
  case (3 sep a b ys)
  show ?case
  proof (cases "x = a")
    case True
    then show ?thesis
      using sublist_appendI [of a "[]" "sep @ join sep (b # ys)"] by simp
  next
    case False
    with 3 have "sublist x (join sep (b # ys))" by simp
    then show ?thesis
      by (simp add: sublist_append)
  qed
qed

lemma pending_line_mentions_id:
  assumes "q \<in> set (questions d)" and "responses d (q_id q) = None"
  shows "sublist (q_id q) (join nl (pending_lines d))"
proof -
  let ?line = "''  '' @ q_id q @ '': '' @ dq @ take 60 (question q) @ dq"
  from assms have "?line \<in> set (pending_lines d)"
    by (auto simp: pending_lines_def)
  then have "sublist ?line (join nl (pending_lines d))"
    by (rule sublist_join)
  moreover have "sublist (q_id q) ?line"
    by (rule sublist_appendI)
  ultimately show ?thesis
    by (rule sublist_order.order_trans [rotated])
qed

lemma not_found_mentions_id:
  assumes "q \<in> set (questions d)" and "responses d (q_id q) = None"
  shows "sublist (q_id q) (not_found_message rid d)"
proof -
  have s: "sublist (q_id q) (join nl (pending_lines d))"
    using assms by (rule pending_line_mentions_id)
  show ?thesis
  proof (cases "join nl (pending_lines d) = []")
    case True
    with s have "q_id q = []" by simp
    then show ?thesis by simp
  next
    case False
    have "sublist (q_id q)
            ((''Question ID '' @ dq @ rid @ dq @ '' not found in pending_input.json.''
               @ nl @ nl @ ''Pending unanswered questions:'' @ nl) @ join nl (pending_lines d))"
      using s by (simp only: sublist_append) blast
    with False show ?thesis
      by (simp add: not_found_message_def Let_def)
  qed
qed




section \<open>Properties of \<^verbatim>\<open>subagent_spawn\<close>\<close>




section \<open>Properties of review gating\<close>

lemma request_note_truthy: "truthy_str (Some (request_note note))"
  by (simp add: truthy_str_def request_note_def split: option.splits)

lemma request_review_effect:
  "supervisor (tool_ralph_request_review note sid2 s)
     = (supervisor s)\<lparr>reviewRequested := (reviewRequested (supervisor s))
          (review_attempt (getSession (nullish sid2 ''default'') s) s \<mapsto> request_note note)\<rparr>"
  "getSession sid (tool_ralph_request_review note sid2 s) = getSession sid s"
  "host_created (tool_ralph_request_review note sid2 s) = host_created s"
  by (simp_all add: tool_ralph_request_review_def Let_def markReviewRequested_def getSession_def
      ensureSession_def split: option.splits)

lemma review_attempt_after_request:
  "review_attempt (getSession sid (tool_ralph_request_review note sid2 s))
     (tool_ralph_request_review note sid2 s) = review_attempt (getSession sid s) s"
  by (simp add: review_attempt_def request_review_effect)

lemma runs_after_request:
  "getReviewerRuns (tool_ralph_request_review note sid2 s) a = getReviewerRuns s a"
  by (simp add: getReviewerRuns_def request_review_effect)

lemma run_reviewer_disabled:
  "rv_force args \<noteq> Some True \<Longrightarrow> \<not> reviewerEnabled cfg
   \<Longrightarrow> tool_ralph_run_reviewer cfg tpl now ts host_id ctx_sid args s = (Rejected ''reviewer disabled'', s)"
  by (simp add: tool_ralph_run_reviewer_def Let_def)

lemma run_reviewer_not_requested:
  "rv_force args \<noteq> Some True \<Longrightarrow> reviewerEnabled cfg \<Longrightarrow> reviewerRequireExplicitReady cfg
   \<Longrightarrow> \<not> truthy_str (reviewRequested (supervisor s)
                        (review_attempt (getSession (nullish ctx_sid ''default'') s) s))
   \<Longrightarrow> fst (tool_ralph_run_reviewer cfg tpl now ts host_id ctx_sid args s)
         = Rejected ''review not requested''"
  by (simp add: tool_ralph_run_reviewer_def Let_def)

lemma run_reviewer_limit:
  "rv_force args \<noteq> Some True \<Longrightarrow> reviewerEnabled cfg
   \<Longrightarrow> reviewerRequireExplicitReady cfg \<longrightarrow>
         truthy_str (reviewRequested (supervisor s)
                       (review_attempt (getSession (nullish ctx_sid ''default'') s) s))
   \<Longrightarrow> reviewerMaxRunsPerAttempt cfg
         \<le> int (getReviewerRuns s (review_attempt (getSession (nullish ctx_sid ''default'') s) s))
   \<Longrightarrow> fst (tool_ralph_run_reviewer cfg tpl now ts host_id ctx_sid args s)
         = Rejected ''review run limit reached''"
  by (auto simp: tool_ralph_run_reviewer_def Let_def)

lemma run_reviewer_active:
  "rv_force args \<noteq> Some True \<Longrightarrow> reviewerEnabled cfg
   \<Longrightarrow> reviewerRequireExplicitReady cfg \<longrightarrow>
         truthy_str (reviewRequested (supervisor s)
                       (review_attempt (getSession (nullish ctx_sid ''default'') s) s))
   \<Longrightarrow> int (getReviewerRuns s (review_attempt (getSession (nullish ctx_sid ''default'') s) s))
         < reviewerMaxRunsPerAttempt cfg
   \<Longrightarrow> truthy_str (activeReviewerName (supervisor s))
   \<Longrightarrow> fst (tool_ralph_run_reviewer cfg tpl now ts host_id ctx_sid args s)
         = (if rv_wait args \<noteq> Some False \<and> truthy_str (activeReviewerOutputPath (supervisor s))
                \<and> truthy_num (activeReviewerAttempt (supervisor s))
            then WaitingForActive (nullish (activeReviewerName (supervisor s)) [])
                   (nullish (activeReviewerAttempt (supervisor s)) 0)
                   (nullish (activeReviewerOutputPath (supervisor s)) [])
                   (reviewRequested (supervisor s) (nullish (activeReviewerAttempt (supervisor s)) 0))
            else AlreadyRunning (nullish (activeReviewerName (supervisor s)) [])
                   (activeReviewerAttempt (supervisor s)))"
  by (auto simp: tool_ralph_run_reviewer_def Let_def)

lemma run_reviewer_starts:
  assumes "rv_force args \<noteq> Some True" and "reviewerEnabled cfg"
    and "reviewerRequireExplicitReady cfg \<longrightarrow>
         truthy_str (reviewRequested (supervisor s)
                       (review_attempt (getSession (nullish ctx_sid ''default'') s) s))"
    and "int (getReviewerRuns s (review_attempt (getSession (nullish ctx_sid ''default'') s) s))
         < reviewerMaxRunsPerAttempt cfg"
    and "\<not> truthy_str (activeReviewerName (supervisor s))"
  shows "\<exists>n rid p. fst (tool_ralph_run_reviewer cfg tpl now ts host_id ctx_sid args s)
                     = Started n rid p (rv_wait args \<noteq> Some False)
         \<and> activeReviewerName (supervisor (snd (tool_ralph_run_reviewer cfg tpl now ts host_id ctx_sid args s)))
             = Some n
         \<and> host_created (snd (tool_ralph_run_reviewer cfg tpl now ts host_id ctx_sid args s))
             = host_created s @ [(rid, ''reviewer: '' @ n)]"
  using assms
  by (simp add: tool_ralph_run_reviewer_def Let_def incReviewerRuns_def)




section \<open>Effects of the outer-loop functions\<close>

lemma spawnRalphSession_effect [simp]:
  "supervisor (spawnRalphSession tpl now hid a s)
     = (supervisor s)\<lparr>currentRalphSessionId := Some (nullish hid (''ralph-'' @ show_nat now))\<rparr>"
  "sessionMap (spawnRalphSession tpl now hid a s)
     = (sessionMap s)(nullish hid (''ralph-'' @ show_nat now)
          \<mapsto> (freshSession Ralph a)\<lparr>lastProgressAt := Some now\<rparr>)"
  "host_created (spawnRalphSession tpl now hid a s)
     = host_created s @ [(nullish hid (''ralph-'' @ show_nat now),
                          ''ralph-strategist-attempt-'' @ show_nat a)]"
  "files (spawnRalphSession tpl now hid a s) = files s"
  "commands_run (spawnRalphSession tpl now hid a s) = commands_run s"
  by (simp_all add: spawnRalphSession_def Let_def getSession_def)

lemma spawnRlmWorker_effect [simp]:
  "fst (spawnRlmWorker tpl now hid a s) = nullish hid (''worker-'' @ show_nat now)"
  "supervisor (snd (spawnRlmWorker tpl now hid a s))
     = (supervisor s)\<lparr>currentWorkerSessionId := Some (nullish hid (''worker-'' @ show_nat now))\<rparr>"
  "sessionMap (snd (spawnRlmWorker tpl now hid a s))
     = (sessionMap s)(nullish hid (''worker-'' @ show_nat now)
          \<mapsto> (freshSession Worker a)\<lparr>lastProgressAt := Some now\<rparr>)"
  "host_created (snd (spawnRlmWorker tpl now hid a s))
     = host_created s @ [(nullish hid (''worker-'' @ show_nat now),
                          ''rlm-worker-attempt-'' @ show_nat a)]"
  "files (snd (spawnRlmWorker tpl now hid a s)) = files s"
  "commands_run (snd (spawnRlmWorker tpl now hid a s)) = commands_run s"
  by (simp_all add: spawnRlmWorker_def Let_def getSession_def)

lemma runAndParseVerify_frame [simp]:
  "supervisor (snd (runAndParseVerify cfg res s)) = supervisor s"
  "sessionMap (snd (runAndParseVerify cfg res s)) = sessionMap s"
  "files (snd (runAndParseVerify cfg res s)) = files s"
  "host_created (snd (runAndParseVerify cfg res s)) = host_created s"
  by (simp_all add: runAndParseVerify_def Let_def split: option.splits)

lemma runAndParseVerify_commands:
  "commands_run (snd (runAndParseVerify cfg res s))
     = commands_run s @ (case verify cfg of None \<Rightarrow> []
                         | Some v \<Rightarrow> if command v = [] then [] else [(command v, nullish (cwd v) ''.'')])"
  by (simp add: runAndParseVerify_def Let_def split: option.splits)

lemma runAndParseVerify_verdict:
  "fst (runAndParseVerify cfg res s) = fst (runAndParseVerify cfg res s')"
  by (simp add: runAndParseVerify_def Let_def split: option.splits)

lemma rolloverState_frame [simp]:
  "supervisor (rolloverState tpl ts n v d s) = supervisor s"
  "sessionMap (rolloverState tpl ts n v d s) = sessionMap s"
  "host_created (rolloverState tpl ts n v d s) = host_created s"
  "commands_run (rolloverState tpl ts n v d s) = commands_run s"
  by (simp_all add: rolloverState_def Let_def)

lemma maybeWarn_frame [simp]:
  "supervisor (maybeWarn cfg now sid label s) = supervisor s"
  "files (maybeWarn cfg now sid label s) = files s"
  "host_created (maybeWarn cfg now sid label s) = host_created s"
  "commands_run (maybeWarn cfg now sid label s) = commands_run s"
  by (simp_all add: maybeWarn_def split: option.splits)

lemma emitHeartbeatWarnings_frame [simp]:
  "supervisor (emitHeartbeatWarnings cfg now s) = supervisor s"
  "files (emitHeartbeatWarnings cfg now s) = files s"
  "host_created (emitHeartbeatWarnings cfg now s) = host_created s"
  "commands_run (emitHeartbeatWarnings cfg now s) = commands_run s"
  by (simp_all add: emitHeartbeatWarnings_def Let_def)

lemma file_names_distinct:
  "FILE_PREV \<noteq> FILE_CURR" "FILE_PREV \<noteq> FILE_NEXT_RALPH" "FILE_CURR \<noteq> FILE_NEXT_RALPH"
  "FILE_CURR \<noteq> FILE_PREV" "FILE_NEXT_RALPH \<noteq> FILE_PREV" "FILE_NEXT_RALPH \<noteq> FILE_CURR"
  by (simp_all add: FILE_PREV_def FILE_CURR_def FILE_NEXT_RALPH_def)

lemma rolloverState_files:
  "files (rolloverState tpl ts n v d s) FILE_PREV
     = Some (''# Previous State (snapshot)'' @ nl @ nl @ ''Captured: '' @ ts @ nl @ nl
               @ nullish (files s FILE_CURR) [] @ nl)"
  "files (rolloverState tpl ts n v d s) FILE_CURR = Some (bootstrapCurrentState tpl)"
  "\<exists>y. files (rolloverState tpl ts n v d s) FILE_NEXT_RALPH = Some y"
  by (simp_all add: rolloverState_def Let_def file_names_distinct)

lemma handleWorkerIdle_clears:
  assumes "currentWorkerSessionId (supervisor s) = Some wid" and "\<not> sup_done (supervisor s)"
    and "enabled cfg" and "autoStartOnMainIdle cfg"
  shows "currentWorkerSessionId (supervisor (handleWorkerIdle cfg tpl now ts hid res wid s)) = None"
    and "commands_run (handleWorkerIdle cfg tpl now ts hid res wid s)
           = commands_run s @ (case verify cfg of None \<Rightarrow> []
                               | Some v \<Rightarrow> if command v = [] then []
                                           else [(command v, nullish (cwd v) ''.'')])"
  using assms
  by (simp_all add: handleWorkerIdle_def Let_def split_beta runAndParseVerify_commands)

lemma handleWorkerIdle_respawn:
  assumes "currentWorkerSessionId (supervisor s) = Some wid" and "\<not> sup_done (supervisor s)"
    and "enabled cfg" and "autoStartOnMainIdle cfg"
    and "fst (fst (runAndParseVerify cfg res s)) \<noteq> Pass"
    and "int (sup_attempt (supervisor s)) < maxAttempts cfg"
  shows "host_created (handleWorkerIdle cfg tpl now ts hid res wid s)
           = host_created s @ [(nullish hid (''ralph-'' @ show_nat now),
                                ''ralph-strategist-attempt-'' @ show_nat (sup_attempt (supervisor s) + 1))]"
    and "currentRalphSessionId (supervisor (handleWorkerIdle cfg tpl now ts hid res wid s))
           = Some (nullish hid (''ralph-'' @ show_nat now))"
proof -
  define v where "v = fst (fst (runAndParseVerify cfg res s))"
  have vv: "fst (fst (runAndParseVerify cfg res t)) = v" for t
    unfolding v_def by (rule arg_cong [OF runAndParseVerify_verdict])
  have np: "v \<noteq> Pass"
    using assms(5) by (simp add: v_def)
  show "host_created (handleWorkerIdle cfg tpl now ts hid res wid s)
           = host_created s @ [(nullish hid (''ralph-'' @ show_nat now),
                                ''ralph-strategist-attempt-'' @ show_nat (sup_attempt (supervisor s) + 1))]"
    and "currentRalphSessionId (supervisor (handleWorkerIdle cfg tpl now ts hid res wid s))
           = Some (nullish hid (''ralph-'' @ show_nat now))"
    using assms(1-4,6) np by (simp_all add: handleWorkerIdle_def Let_def split_beta vv)
qed

section \<open>The concrete runs, evaluated\<close>

lemma show_nat_small:
  "show_nat 1 = ''1''" "show_nat (Suc 0) = ''1''" "show_nat 2 = ''2''" "show_nat (Suc (Suc 0)) = ''2''"
  by code_simp+

lemma loop_config_fields:
  "enabled loop_config" "autoStartOnMainIdle loop_config" "maxAttempts loop_config = 20"
  "verify loop_config = Some \<lparr>command = [''make'', ''test''], cwd = None\<rparr>"
  "heartbeatMinutes loop_config = 15"
  by (simp_all add: loop_config_def CONFIG_DEFAULTS_def)

lemma idle_fields:
  "ev_type (idle sid) = SessionIdle" "ev_sessionID (idle sid) = Some sid"
  by (simp_all add: idle_def)

lemma verdict_here:
  "fst (fst (runAndParseVerify loop_config failing s)) = Fail"
  "fst (fst (runAndParseVerify loop_config passing s)) = Pass"
  "fst (fst (runAndParseVerify (loop_config\<lparr>maxAttempts := 1\<rparr>) failing s)) = Fail"
  by (simp_all add: runAndParseVerify_def Let_def loop_config_def failing_def passing_def)

lemma strategist_running_state:
  "supervisor strategist_running
     = \<lparr>sup_sessionId = Some ''main'', sup_attempt = 1, currentRalphSessionId = Some ''r1'',
        currentWorkerSessionId = None, sup_done = False, sup_paused = False,
        lastMainIdleAt = None, reviewRequested = Map.empty, reviewerRuns = Map.empty,
        activeReviewerName = None, activeReviewerAttempt = None,
        activeReviewerSessionId = None, activeReviewerOutputPath = None\<rparr>"
  "sessionMap strategist_running = [''r1'' \<mapsto> (freshSession Ralph 1)\<lparr>lastProgressAt := Some 1000\<rparr>]"
  "host_created strategist_running = [(''r1'', ''ralph-strategist-attempt-1'')]"
  "commands_run strategist_running = []"
  "files strategist_running = [''PLAN.md'' \<mapsto> ''# Plan'']"
  by (simp_all add: strategist_running_def tool_ralph_create_supervisor_session_def Let_def
      start_args_def planned_def initial_state_def truthy_str_def nullish_def setup_ready_def
      loop_config_fields FILE_PLAN_def show_nat_small)

lemma worker_running_state:
  "supervisor worker_running
     = \<lparr>sup_sessionId = Some ''main'', sup_attempt = 1, currentRalphSessionId = Some ''r1'',
        currentWorkerSessionId = Some ''w1'', sup_done = False, sup_paused = False,
        lastMainIdleAt = None, reviewRequested = Map.empty, reviewerRuns = Map.empty,
        activeReviewerName = None, activeReviewerAttempt = None,
        activeReviewerSessionId = None, activeReviewerOutputPath = None\<rparr>"
  "sessionMap worker_running
     = [''r1'' \<mapsto> (freshSession Ralph 1)\<lparr>lastProgressAt := Some 1000, workerSpawned := True\<rparr>,
        ''w1'' \<mapsto> (freshSession Worker 1)\<lparr>lastProgressAt := Some 2000\<rparr>]"
  "host_created worker_running
     = [(''r1'', ''ralph-strategist-attempt-1''), (''w1'', ''rlm-worker-attempt-1'')]"
  "commands_run worker_running = []"
  "files worker_running = [''PLAN.md'' \<mapsto> ''# Plan'']"
  by (simp_all add: worker_running_def tool_ralph_spawn_worker_def Let_def split_beta
      strategist_running_state nullish_def freshSession_def getSession_def show_nat_small)

lemma strategist_idled_state:
  "supervisor strategist_idled = (supervisor strategist_running)\<lparr>currentRalphSessionId := None\<rparr>"
  "sessionMap strategist_idled = sessionMap strategist_running"
  "host_created strategist_idled = host_created strategist_running"
  "files strategist_idled = files strategist_running"
  by (simp_all add: strategist_idled_def handle_event_def idle_fields truthy_str_def nullish_def
      strategist_running_state emitHeartbeatWarnings_def maybeWarn_def Let_def freshSession_def
      loop_config_fields handleRalphSessionIdle_def)

lemma paused_then_resumed_state:
  "supervisor paused_then_resumed = supervisor worker_running"
  "sessionMap paused_then_resumed = sessionMap worker_running"
  "host_created paused_then_resumed = host_created worker_running"
  "files paused_then_resumed = files worker_running"
  by (simp_all add: paused_then_resumed_def tool_ralph_resume_supervision_def
      tool_ralph_pause_supervision_def handle_event_def idle_fields Let_def truthy_str_def
      nullish_def worker_running_state)

lemma restarted_state:
  "supervisor restarted = (supervisor strategist_running)\<lparr>currentRalphSessionId := Some ''r2''\<rparr>"
  "sessionMap restarted
     = [''r1'' \<mapsto> (freshSession Ralph 1)\<lparr>lastProgressAt := Some 1000\<rparr>,
        ''r2'' \<mapsto> (freshSession Ralph 1)\<lparr>lastProgressAt := Some 1600\<rparr>]"
  by (simp_all add: restarted_def tool_ralph_create_supervisor_session_def Let_def start_args_def
      strategist_idled_state strategist_running_state truthy_str_def nullish_def setup_ready_def
      loop_config_fields FILE_PLAN_def)

section \<open>Properties of the worker-idle transition\<close>




text \<open>
  The handler has a second guard, \<open>autoStartOnMainIdle\<close>, whose documented meaning is
  to start attempt 1 when the main session goes idle. With the default configuration
  (manual start, \<open>autoStartOnMainIdle = false\<close>) and a verification command, the
  worker's idle event therefore does nothing either.
\<close>

lemma worker_idle_without_autostart:
  "enabled manual_config \<and> \<not> autoStartOnMainIdle manual_config
   \<and> currentWorkerSessionId (supervisor
         (handle_event manual_config witness_templates 3000 ''t'' (Some ''r2'') failing (idle ''w1'')
            worker_running)) = Some ''w1''
   \<and> commands_run (handle_event manual_config witness_templates 3000 ''t'' (Some ''r2'') failing
         (idle ''w1'') worker_running) = []"
proof -
  have d: "enabled manual_config" "\<not> autoStartOnMainIdle manual_config"
    by (simp_all add: manual_config_def CONFIG_DEFAULTS_def)
  have e: "handle_event manual_config witness_templates 3000 ''t'' (Some ''r2'') failing (idle ''w1'')
             worker_running
           = emitHeartbeatWarnings manual_config 3000 worker_running"
    by (simp add: handle_event_def idle_fields truthy_str_def nullish_def worker_running_state
        handleWorkerIdle_def d)
  show ?thesis
    by (simp add: e d) (simp add: worker_running_state)
qed



section \<open>Properties of \<^verbatim>\<open>ralph_spawn_worker\<close>\<close>

text \<open>
  Claim C5, as amended. \<^verbatim>\<open>ralph_spawn_worker\<close> succeeds only when the calling session
  is registered with the strategist role: a caller without a record or with another role
  is rejected and nothing changes; a strategist session that has already delegated is
  rejected and nothing changes; a strategist session that has not yet delegated gets a
  worker for its attempt (created at the host and tracked as the active worker), is
  marked as having delegated, and every later call from it is rejected. So each
  strategist session delegates at most once. (The worker's id is taken to differ from
  the caller's.)
\<close>

theorem spawn_worker_by_role:
  fixes tpl now hid ctx_sid s now' hid'
  defines "sid \<equiv> nullish ctx_sid []"
    and "wid \<equiv> nullish hid (''worker-'' @ show_nat now)"
    and "r \<equiv> tool_ralph_spawn_worker tpl now hid ctx_sid s"
  shows "((case sessionMap s sid of None \<Rightarrow> True | Some st \<Rightarrow> role st \<noteq> Ralph)
            \<longrightarrow> r = (Inl SpawnWorkerNotStrategist, s))
       \<and> (\<forall>st. sessionMap s sid = Some st \<and> role st = Ralph \<and> workerSpawned st
            \<longrightarrow> r = (Inl SpawnWorkerAlreadyCalled, s))
       \<and> (\<forall>st. sessionMap s sid = Some st \<and> role st = Ralph \<and> \<not> workerSpawned st \<and> wid \<noteq> sid
            \<longrightarrow> fst r = Inr \<lparr>sw_workerSessionId = wid, sw_attempt = attempt st\<rparr>
               \<and> host_created (snd r)
                   = host_created s @ [(wid, ''rlm-worker-attempt-'' @ show_nat (attempt st))]
               \<and> currentWorkerSessionId (supervisor (snd r)) = Some wid
               \<and> sessionMap (snd r) sid = Some (st\<lparr>workerSpawned := True\<rparr>)
               \<and> tool_ralph_spawn_worker tpl now' hid' ctx_sid (snd r)
                   = (Inl SpawnWorkerAlreadyCalled, snd r))"
proof (intro conjI allI impI)
  assume "case sessionMap s sid of None \<Rightarrow> True | Some st \<Rightarrow> role st \<noteq> Ralph"
  then show "r = (Inl SpawnWorkerNotStrategist, s)"
    by (simp add: r_def sid_def tool_ralph_spawn_worker_def split: option.splits)
next
  fix st
  assume "sessionMap s sid = Some st \<and> role st = Ralph \<and> workerSpawned st"
  then show "r = (Inl SpawnWorkerAlreadyCalled, s)"
    by (simp add: r_def sid_def tool_ralph_spawn_worker_def)
next
  fix st
  assume a: "sessionMap s sid = Some st \<and> role st = Ralph \<and> \<not> workerSpawned st \<and> wid \<noteq> sid"
  then have m: "sessionMap (snd r) sid = Some (st\<lparr>workerSpawned := True\<rparr>)"
    by (auto simp: r_def sid_def wid_def tool_ralph_spawn_worker_def Let_def split_beta getSession_def)
  from a show "fst r = Inr \<lparr>sw_workerSessionId = wid, sw_attempt = attempt st\<rparr>"
    by (simp add: r_def sid_def wid_def tool_ralph_spawn_worker_def Let_def split_beta)
  from a show "host_created (snd r)
                   = host_created s @ [(wid, ''rlm-worker-attempt-'' @ show_nat (attempt st))]"
    by (simp add: r_def sid_def wid_def tool_ralph_spawn_worker_def Let_def split_beta)
  from a show "currentWorkerSessionId (supervisor (snd r)) = Some wid"
    by (simp add: r_def sid_def wid_def tool_ralph_spawn_worker_def Let_def split_beta)
  from m show "sessionMap (snd r) sid = Some (st\<lparr>workerSpawned := True\<rparr>)" .
  from m a show "tool_ralph_spawn_worker tpl now' hid' ctx_sid (snd r)
                   = (Inl SpawnWorkerAlreadyCalled, snd r)"
    by (simp add: sid_def tool_ralph_spawn_worker_def)
qed

text \<open>
  In the run above: the main session is refused, the strategist \<^verbatim>\<open>r1\<close> gets worker
  \<^verbatim>\<open>w1\<close>, and a second call of \<^verbatim>\<open>r1\<close> is refused.
\<close>

theorem spawn_worker_by_role_witness:
  "tool_ralph_spawn_worker witness_templates 2000 (Some ''w1'') (Some ''main'') strategist_running
     = (Inl SpawnWorkerNotStrategist, strategist_running)
   \<and> fst (tool_ralph_spawn_worker witness_templates 2000 (Some ''w1'') (Some ''r1'') strategist_running)
       = Inr \<lparr>sw_workerSessionId = ''w1'', sw_attempt = 1\<rparr>
   \<and> tool_ralph_spawn_worker witness_templates 2500 (Some ''w2'') (Some ''r1'') worker_running
       = (Inl SpawnWorkerAlreadyCalled, worker_running)"
  using spawn_worker_by_role [where tpl = witness_templates and now = 2000 and hid = "Some ''w1''"
      and ctx_sid = "Some ''main''" and s = strategist_running]
    spawn_worker_by_role [where tpl = witness_templates and now = 2000 and hid = "Some ''w1''"
      and ctx_sid = "Some ''r1''" and s = strategist_running and now' = 2500 and hid' = "Some ''w2''"]
  by (simp add: strategist_running_state nullish_def freshSession_def worker_running_def)

text \<open>
  The claim as first stated (``only from the currently active strategist session'')
  fails: after the strategist \<^verbatim>\<open>r1\<close> went idle without delegating, no strategist is
  tracked as active, and a call from \<^verbatim>\<open>r1\<close> still succeeds.
\<close>

theorem spawn_worker_stale_strategist:
  "currentRalphSessionId (supervisor strategist_idled) = None
   \<and> fst (tool_ralph_spawn_worker witness_templates 2000 (Some ''w1'') (Some ''r1'') strategist_idled)
       = Inr \<lparr>sw_workerSessionId = ''w1'', sw_attempt = 1\<rparr>"
  by (simp add: tool_ralph_spawn_worker_def Let_def split_beta strategist_idled_state
      strategist_running_state nullish_def freshSession_def)

section \<open>Spawning while a session of the same kind is tracked\<close>

lemma second_strategist:
  "currentRalphSessionId (supervisor paused_then_resumed) = Some ''r1''
   \<and> host_created (handle_event loop_config witness_templates 3000 ''t'' (Some ''r2'') failing
                     (idle ''w1'') paused_then_resumed)
       = host_created paused_then_resumed @ [(''r2'', ''ralph-strategist-attempt-2'')]
   \<and> currentRalphSessionId (supervisor
         (handle_event loop_config witness_templates 3000 ''t'' (Some ''r2'') failing (idle ''w1'')
            paused_then_resumed)) = Some ''r2''"
proof -
  let ?s = "emitHeartbeatWarnings loop_config 3000 paused_then_resumed"
  have e: "handle_event loop_config witness_templates 3000 ''t'' (Some ''r2'') failing (idle ''w1'')
             paused_then_resumed
           = handleWorkerIdle loop_config witness_templates 3000 ''t'' (Some ''r2'') failing ''w1'' ?s"
    by (simp add: handle_event_def idle_fields truthy_str_def nullish_def worker_running_state
        paused_then_resumed_state)
  have p: "currentWorkerSessionId (supervisor ?s) = Some ''w1''" "\<not> sup_done (supervisor ?s)"
    "fst (fst (runAndParseVerify loop_config failing ?s)) \<noteq> Pass"
    "int (sup_attempt (supervisor ?s)) < maxAttempts loop_config"
    by (simp_all add: paused_then_resumed_state worker_running_state verdict_here loop_config_fields)
  show ?thesis
    using handleWorkerIdle_respawn [OF p(1) p(2) loop_config_fields(1) loop_config_fields(2) p(3) p(4),
        where tpl = witness_templates and now = 3000 and ts = "''t''" and hid = "Some ''r2''"]
    by (simp add: e paused_then_resumed_state worker_running_state nullish_def show_nat_small)
qed

lemma second_worker:
  "currentWorkerSessionId (supervisor delegated) = Some ''w1''
   \<and> currentRalphSessionId (supervisor delegated) = Some ''r2''
   \<and> fst (tool_ralph_spawn_worker witness_templates 2100 (Some ''w2'') (Some ''r1'') delegated)
       = Inr \<lparr>sw_workerSessionId = ''w2'', sw_attempt = 1\<rparr>
   \<and> host_created (snd (tool_ralph_spawn_worker witness_templates 2100 (Some ''w2'') (Some ''r1'')
                           delegated))
       = host_created delegated @ [(''w2'', ''rlm-worker-attempt-1'')]"
proof -
  have d: "supervisor delegated = (supervisor restarted)\<lparr>currentWorkerSessionId := Some ''w1''\<rparr>"
    "sessionMap delegated ''r1'' = Some ((freshSession Ralph 1)\<lparr>lastProgressAt := Some 1000\<rparr>)"
    by (simp_all add: delegated_def tool_ralph_spawn_worker_def Let_def split_beta restarted_state
        nullish_def freshSession_def getSession_def)
  show ?thesis
    by (simp add: tool_ralph_spawn_worker_def Let_def split_beta d restarted_state
        strategist_running_state nullish_def freshSession_def show_nat_small)
qed

text \<open>
  Claim C3 does not hold of the code. First run: supervision is paused while strategist
  \<^verbatim>\<open>r1\<close> and worker \<^verbatim>\<open>w1\<close> run, the idle event of \<^verbatim>\<open>r1\<close> arrives during the
  pause and is dropped, supervision is resumed; when \<^verbatim>\<open>w1\<close> then goes idle and
  verification fails, the strategist \<^verbatim>\<open>r2\<close> is spawned while \<^verbatim>\<open>r1\<close> is still the
  tracked strategist, and the field is overwritten. Second run: \<^verbatim>\<open>r2\<close> is the
  active strategist and \<^verbatim>\<open>w1\<close> the tracked worker, and a call of
  \<^verbatim>\<open>ralph_spawn_worker\<close> from the earlier strategist \<^verbatim>\<open>r1\<close> spawns worker \<^verbatim>\<open>w2\<close>.
\<close>

theorem tracked_session_overwritten:
  "(currentRalphSessionId (supervisor paused_then_resumed) = Some ''r1''
    \<and> host_created (handle_event loop_config witness_templates 3000 ''t'' (Some ''r2'') failing
                      (idle ''w1'') paused_then_resumed)
        = host_created paused_then_resumed @ [(''r2'', ''ralph-strategist-attempt-2'')]
    \<and> currentRalphSessionId (supervisor
          (handle_event loop_config witness_templates 3000 ''t'' (Some ''r2'') failing (idle ''w1'')
             paused_then_resumed)) = Some ''r2'')
   \<and> (currentWorkerSessionId (supervisor delegated) = Some ''w1''
      \<and> currentRalphSessionId (supervisor delegated) = Some ''r2''
      \<and> fst (tool_ralph_spawn_worker witness_templates 2100 (Some ''w2'') (Some ''r1'') delegated)
          = Inr \<lparr>sw_workerSessionId = ''w2'', sw_attempt = 1\<rparr>
      \<and> host_created (snd (tool_ralph_spawn_worker witness_templates 2100 (Some ''w2'') (Some ''r1'')
                              delegated))
          = host_created delegated @ [(''w2'', ''rlm-worker-attempt-1'')])"
  using second_strategist second_worker by blast

end
